theory Spec2Isabelle
  imports Main "HOL-Library.Sublist"
begin

section \<open>Values exchanged with the outside world\<close>

text \<open>
  The client module \<^verbatim>\<open>_modules/rabbitmq_extended.py\<close> shells out through Salt's
  \<^verbatim>\<open>cmd.run\<close> and decodes the listing output with \<^verbatim>\<open>json.loads\<close>. The decoded
  value is a Python object; \<open>JNull\<close> is Python's \<^verbatim>\<open>None\<close>, and a decoded JSON object is
  an association list read with \<open>map_of\<close> (its keys are distinct after decoding). Numbers
  are integers here: the code never reads one.
\<close>

datatype json =
    JNull
  | JBool bool
  | JInt int
  | JStr string
  | JList "json list"
  | JObj "(string \<times> json) list"

text \<open>
  What \<^verbatim>\<open>cmd.run\<close> hands back: normally the output text; \<^verbatim>\<open>_format_response\<close> also
  accepts the mapping of \<^verbatim>\<open>cmd.run_all\<close>, of which it reads \<^verbatim>\<open>retcode\<close> and
  \<^verbatim>\<open>stdout\<close>.
\<close>

record cmd_result =
  retcode :: int
  stdout :: string

datatype response = RStr string | RDict cmd_result

text \<open>
  The exceptions the code can raise. \<open>CommandExecutionError\<close> carries the response that is
  formatted into its message \<^verbatim>\<open>'RabbitMQ command failed: {0}'\<close>.
\<close>

datatype error =
    CommandExecutionError response
  | KeyError string
  | TypeError
  | ValueError

section \<open>String primitives of Python used by the client module\<close>

text \<open>\<^verbatim>\<open>sub in s\<close> on strings: \<open>sub\<close> occurs as a contiguous run of \<open>s\<close>.\<close>

fun str_in :: "string \<Rightarrow> string \<Rightarrow> bool" where
  "str_in sub [] = (sub = [])"
| "str_in sub (c # cs) = (prefix sub (c # cs) \<or> str_in sub cs)"

text \<open>
  \<^verbatim>\<open>str.splitlines()\<close> of Python 3. A \<open>char\<close> is a code point below 256; among
  those a line ends at LF, VT, FF, CR, FS, GS, RS and NEL (0x85), and CR LF counts as one
  boundary. The two remaining boundaries of Python, U+2028 and U+2029, lie outside the
  type.
\<close>

definition line_boundary :: "char \<Rightarrow> bool" where
  "line_boundary c =
     (c = CHR 0x0A \<or> c = CHR 0x0B \<or> c = CHR 0x0C \<or> c = CHR 0x0D
      \<or> c = CHR 0x1C \<or> c = CHR 0x1D \<or> c = CHR 0x1E \<or> c = CHR 0x85)"

fun splitlines_from :: "string \<Rightarrow> string \<Rightarrow> string list" where
  "splitlines_from cur [] = (if cur = [] then [] else [cur])"
| "splitlines_from cur [c] =
     (if line_boundary c then [cur] else [cur @ [c]])"
| "splitlines_from cur (c # d # cs) =
     (if c = CHR 0x0D \<and> d = CHR 0x0A then cur # splitlines_from [] cs
      else if line_boundary c then cur # splitlines_from [] (d # cs)
      else splitlines_from (cur @ [c]) (d # cs))"

definition splitlines :: "string \<Rightarrow> string list" where
  "splitlines s = splitlines_from [] s"

text \<open>\<^verbatim>\<open>s.split(sep)\<close> for a one-character separator.\<close>

fun split_on :: "char \<Rightarrow> string \<Rightarrow> string list" where
  "split_on sep [] = [[]]"
| "split_on sep (c # cs) =
     (if c = sep then [] # split_on sep cs
      else (case split_on sep cs of
              [] \<Rightarrow> [[c]]
            | x # xs \<Rightarrow> (c # x) # xs))"

text \<open>\<^verbatim>\<open>s.split(sep, 1)\<close>: at most one cut, at the first separator.\<close>

definition split_once :: "char \<Rightarrow> string \<Rightarrow> string list" where
  "split_once sep s =
     (if sep \<in> set s
      then [takeWhile (\<lambda>c. c \<noteq> sep) s, tl (dropWhile (\<lambda>c. c \<noteq> sep) s)]
      else [s])"

text \<open>The tuple assignment \<^verbatim>\<open>key, values = ...\<close> raises \<^verbatim>\<open>ValueError\<close> unless it gets two items.\<close>

fun unpack2 :: "string list \<Rightarrow> error + (string \<times> string)" where
  "unpack2 [k, v] = Inr (k, v)"
| "unpack2 _ = Inl ValueError"

section \<open>The client module\<close>

subsection \<open>Response normalisation\<close>

text \<open>
  \<^verbatim>\<open>_format_response(response, msg)\<close>. The returned one-entry dict is an association
  list.
\<close>

fun format_response :: "response \<Rightarrow> string \<Rightarrow> error + (string \<times> response) list" where
  "format_response (RDict d) msg =
     (if retcode d \<noteq> 0 then Inl (CommandExecutionError (RDict d))
      else Inr [(stdout d, RDict d)])"
| "format_response (RStr s) msg =
     (if str_in ''Error'' s then Inl (CommandExecutionError (RStr s))
      else Inr [(msg, RStr s)])"

subsection \<open>Parsing tab-delimited listings\<close>

text \<open>\<^verbatim>\<open>_safe_output(line)\<close> and \<^verbatim>\<open>_strip_listing_to_done(output_list)\<close>.\<close>

definition safe_output :: "string \<Rightarrow> bool" where
  "safe_output line =
     (\<not> ((prefix ''Listing'' line \<and> suffix ''...'' line)
         \<or> str_in ''...done'' line
         \<or> prefix ''WARNING:'' line))"

definition strip_listing_to_done :: "string list \<Rightarrow> string list" where
  "strip_listing_to_done output_list = filter safe_output output_list"

text \<open>
  A value of the dict built by \<^verbatim>\<open>_output_to_dict\<close>: the string stored for a
  key without values, or whatever \<^verbatim>\<open>values_mapper\<close> made of the text after the first tab.
\<close>

datatype 'v entry = Text string | Mapped 'v

text \<open>The body of the \<^verbatim>\<open>for row in data_rows\<close> loop, and the loop.\<close>

definition output_row :: "(string \<Rightarrow> 'v) \<Rightarrow> (string \<rightharpoonup> 'v entry) \<Rightarrow> string \<Rightarrow> (string \<rightharpoonup> 'v entry)" where
  "output_row values_mapper ret row =
     (case unpack2 (split_once CHR 0x09 row) of
        Inl _ \<Rightarrow> ret(row \<mapsto> Text [])
      | Inr (key, vals) \<Rightarrow> ret(key \<mapsto> Mapped (values_mapper vals)))"

fun output_rows :: "(string \<Rightarrow> 'v) \<Rightarrow> (string \<rightharpoonup> 'v entry) \<Rightarrow> string list \<Rightarrow> (string \<rightharpoonup> 'v entry)" where
  "output_rows values_mapper ret [] = ret"
| "output_rows values_mapper ret (row # rows) =
     output_rows values_mapper (output_row values_mapper ret row) rows"

text \<open>\<^verbatim>\<open>_output_to_dict(cmdoutput, values_mapper)\<close> with a mapper given.\<close>

definition output_to_dict_with :: "string \<Rightarrow> (string \<Rightarrow> 'v) \<Rightarrow> (string \<rightharpoonup> 'v entry)" where
  "output_to_dict_with cmdoutput values_mapper =
     output_rows values_mapper Map.empty (strip_listing_to_done (splitlines cmdoutput))"

text \<open>\<^verbatim>\<open>_output_to_dict(cmdoutput)\<close>: the default mapper splits the values at every tab.\<close>

definition output_to_dict :: "string \<Rightarrow> (string \<rightharpoonup> string list entry)" where
  "output_to_dict cmdoutput = output_to_dict_with cmdoutput (split_on CHR 0x09)"


subsection \<open>Running the admin command line\<close>

text \<open>
  An argument list handed to \<^verbatim>\<open>cmd.run\<close> mixes strings with the port number. A call
  is the argument list with the \<^verbatim>\<open>runas\<close> keyword (\<^verbatim>\<open>python_shell=False\<close> is the same
  in every call).
\<close>

datatype arg = AStr string | AInt int

record cmd =
  argv :: "arg list"
  runas :: string

text \<open>
  The ambient collaborators: \<^verbatim>\<open>__salt__['cmd.run']\<close>, whose answer may depend on the
  calls issued before (the broker changes under them); \<^verbatim>\<open>json.loads\<close>
  (\<open>None\<close> when it rejects the text) and \<^verbatim>\<open>json.dumps\<close>; the text Python prints for
  a decoded value that is not a string;
  \<^verbatim>\<open>salt.utils.get_user()\<close>; and \<^verbatim>\<open>__opts__['test']\<close>.
\<close>

record env =
  cmd_run :: "cmd list \<Rightarrow> cmd \<Rightarrow> response"
  json_loads :: "string \<Rightarrow> json option"
  json_dumps :: "(string \<rightharpoonup> json) \<Rightarrow> string"
  py_repr :: "json \<Rightarrow> string"
  get_user :: string
  opts_test :: bool

text \<open>
  Every function below takes the history \<open>h\<close> of calls issued so far and returns its
  outcome together with the calls it issued itself, in order.
\<close>

definition run :: "env \<Rightarrow> cmd list \<Rightarrow> arg list \<Rightarrow> string option \<Rightarrow> response \<times> cmd list" where
  "run e h args runas_opt =
     (let c = \<lparr>argv = args,
                runas = (case runas_opt of None \<Rightarrow> get_user e | Some u \<Rightarrow> u)\<rparr>
      in (cmd_run e h c, [c]))"

text \<open>\<^verbatim>\<open>json.loads(res)\<close>: a mapping instead of text is a \<^verbatim>\<open>TypeError\<close>.\<close>

definition loads :: "env \<Rightarrow> response \<Rightarrow> error + json" where
  "loads e res =
     (case res of
        RDict _ \<Rightarrow> Inl TypeError
      | RStr s \<Rightarrow> (case json_loads e s of None \<Rightarrow> Inl ValueError | Some j \<Rightarrow> Inr j))"

text \<open>\<^verbatim>\<open>for item in value\<close>: what iterating a decoded value yields.\<close>

fun py_iter :: "json \<Rightarrow> error + json list" where
  "py_iter (JList xs) = Inr xs"
| "py_iter (JObj kvs) = Inr (map (\<lambda>kv. JStr (fst kv)) kvs)"
| "py_iter (JStr s) = Inr (map (\<lambda>c. JStr [c]) s)"
| "py_iter _ = Inl TypeError"

text \<open>\<^verbatim>\<open>item[key]\<close> with a string key.\<close>

fun py_getitem :: "json \<Rightarrow> string \<Rightarrow> error + json" where
  "py_getitem (JObj kvs) k =
     (case map_of kvs k of None \<Rightarrow> Inl (KeyError k) | Some v \<Rightarrow> Inr v)"
| "py_getitem _ k = Inl TypeError"

text \<open>Truth value of a decoded value, as \<^verbatim>\<open>not properties_key\<close> tests it.\<close>

fun py_truthy :: "json \<Rightarrow> bool" where
  "py_truthy JNull = False"
| "py_truthy (JBool b) = b"
| "py_truthy (JInt i) = (i \<noteq> 0)"
| "py_truthy (JStr s) = (s \<noteq> [])"
| "py_truthy (JList xs) = (xs \<noteq> [])"
| "py_truthy (JObj kvs) = (kvs \<noteq> [])"

text \<open>\<^verbatim>\<open>item[key] == s\<close> for a string \<open>s\<close>.\<close>

definition field_is :: "json \<Rightarrow> string \<Rightarrow> string \<Rightarrow> error + bool" where
  "field_is item k s =
     (case py_getitem item k of Inl err \<Rightarrow> Inl err | Inr v \<Rightarrow> Inr (v = JStr s))"

text \<open>\<^verbatim>\<open>a and b\<close> where evaluating either side may raise: \<open>b\<close> is not evaluated when \<open>a\<close> is false.\<close>

definition and_then :: "error + bool \<Rightarrow> error + bool \<Rightarrow> error + bool" where
  "and_then a b = (case a of Inl err \<Rightarrow> Inl err | Inr False \<Rightarrow> Inr False | Inr True \<Rightarrow> b)"

subsection \<open>Existence queries\<close>

text \<open>The connection options \<^verbatim>\<open>'-H', host, '-P', port, '-u', user, '-p', passwd, '-V', vhost\<close>.\<close>

definition conn :: "string \<Rightarrow> int \<Rightarrow> string \<Rightarrow> string \<Rightarrow> string \<Rightarrow> arg list" where
  "conn host port user passwd vhost =
     [AStr ''-H'', AStr host, AStr ''-P'', AInt port, AStr ''-u'', AStr user,
      AStr ''-p'', AStr passwd, AStr ''-V'', AStr vhost]"

text \<open>The loop of \<^verbatim>\<open>exchange_exists\<close> and \<^verbatim>\<open>queue_exists\<close>.\<close>

fun name_scan :: "string \<Rightarrow> json list \<Rightarrow> error + bool" where
  "name_scan name [] = Inr False"
| "name_scan name (item # items) =
     (case field_is item ''name'' name of
        Inl err \<Rightarrow> Inl err
      | Inr True \<Rightarrow> Inr True
      | Inr False \<Rightarrow> name_scan name items)"

definition exchange_exists ::
  "env \<Rightarrow> cmd list \<Rightarrow> string \<Rightarrow> string \<Rightarrow> int \<Rightarrow> string \<Rightarrow> string \<Rightarrow> string \<Rightarrow> string option
   \<Rightarrow> (error + bool) \<times> cmd list" where
  "exchange_exists e h name host port user passwd vhost runas_opt =
     (let (res, cs) = run e h
            ([AStr ''rabbitmqadmin'', AStr ''list'', AStr ''exchanges'']
             @ conn host port user passwd vhost @ [AStr ''--format=raw_json'']) runas_opt
      in (case loads e res of
            Inl err \<Rightarrow> (Inl err, cs)
          | Inr j \<Rightarrow> (case py_iter j of
                       Inl err \<Rightarrow> (Inl err, cs)
                     | Inr items \<Rightarrow> (name_scan name items, cs))))"

definition queue_exists ::
  "env \<Rightarrow> cmd list \<Rightarrow> string \<Rightarrow> string \<Rightarrow> int \<Rightarrow> string \<Rightarrow> string \<Rightarrow> string \<Rightarrow> string option
   \<Rightarrow> (error + bool) \<times> cmd list" where
  "queue_exists e h name host port user passwd vhost runas_opt =
     (let (res, cs) = run e h
            ([AStr ''rabbitmqadmin'', AStr ''list'', AStr ''queues'']
             @ conn host port user passwd vhost @ [AStr ''--format=raw_json'']) runas_opt
      in (case loads e res of
            Inl err \<Rightarrow> (Inl err, cs)
          | Inr j \<Rightarrow> (case py_iter j of
                       Inl err \<Rightarrow> (Inl err, cs)
                     | Inr items \<Rightarrow> (name_scan name items, cs))))"

text \<open>The condition the two binding queries test on each listed item.\<close>

definition binding_cond :: "json \<Rightarrow> string \<Rightarrow> string \<Rightarrow> string \<Rightarrow> string \<Rightarrow> string \<Rightarrow> error + bool" where
  "binding_cond item name destination destination_type routing_key vhost =
     and_then (field_is item ''source'' name)
    (and_then (field_is item ''destination'' destination)
    (and_then (field_is item ''destination_type'' destination_type)
    (and_then (field_is item ''routing_key'' routing_key)
              (field_is item ''vhost'' vhost))))"

fun binding_scan :: "string \<Rightarrow> string \<Rightarrow> string \<Rightarrow> string \<Rightarrow> string \<Rightarrow> json list \<Rightarrow> error + bool" where
  "binding_scan name destination destination_type routing_key vhost [] = Inr False"
| "binding_scan name destination destination_type routing_key vhost (item # items) =
     (case binding_cond item name destination destination_type routing_key vhost of
        Inl err \<Rightarrow> Inl err
      | Inr True \<Rightarrow> Inr True
      | Inr False \<Rightarrow> binding_scan name destination destination_type routing_key vhost items)"

fun binding_props_scan :: "string \<Rightarrow> string \<Rightarrow> string \<Rightarrow> string \<Rightarrow> string \<Rightarrow> json list \<Rightarrow> error + json" where
  "binding_props_scan name destination destination_type routing_key vhost [] = Inr JNull"
| "binding_props_scan name destination destination_type routing_key vhost (item # items) =
     (case binding_cond item name destination destination_type routing_key vhost of
        Inl err \<Rightarrow> Inl err
      | Inr True \<Rightarrow> py_getitem item ''properties_key''
      | Inr False \<Rightarrow> binding_props_scan name destination destination_type routing_key vhost items)"

definition binding_exists ::
  "env \<Rightarrow> cmd list \<Rightarrow> string \<Rightarrow> string \<Rightarrow> string \<Rightarrow> string \<Rightarrow> string \<Rightarrow> int \<Rightarrow> string \<Rightarrow> string
   \<Rightarrow> string \<Rightarrow> string option \<Rightarrow> (error + bool) \<times> cmd list" where
  "binding_exists e h name destination destination_type routing_key host port user passwd
                  vhost runas_opt =
     (let (res, cs) = run e h
            ([AStr ''rabbitmqadmin'', AStr ''list'', AStr ''bindings'']
             @ conn host port user passwd vhost @ [AStr ''--format=raw_json'']) runas_opt
      in (case loads e res of
            Inl err \<Rightarrow> (Inl err, cs)
          | Inr j \<Rightarrow> (case py_iter j of
                       Inl err \<Rightarrow> (Inl err, cs)
                     | Inr items \<Rightarrow>
                         (binding_scan name destination destination_type routing_key vhost items,
                          cs))))"

definition binding_exists_with_props ::
  "env \<Rightarrow> cmd list \<Rightarrow> string \<Rightarrow> string \<Rightarrow> string \<Rightarrow> string \<Rightarrow> string \<Rightarrow> int \<Rightarrow> string \<Rightarrow> string
   \<Rightarrow> string \<Rightarrow> string option \<Rightarrow> (error + json) \<times> cmd list" where
  "binding_exists_with_props e h name destination destination_type routing_key host port user
                             passwd vhost runas_opt =
     (let (res, cs) = run e h
            ([AStr ''rabbitmqadmin'', AStr ''list'', AStr ''bindings'']
             @ conn host port user passwd vhost @ [AStr ''--format=raw_json'']) runas_opt
      in (case loads e res of
            Inl err \<Rightarrow> (Inl err, cs)
          | Inr j \<Rightarrow> (case py_iter j of
                       Inl err \<Rightarrow> (Inl err, cs)
                     | Inr items \<Rightarrow>
                         (binding_props_scan name destination destination_type routing_key vhost
                            items, cs))))"


subsection \<open>Declaring and deleting\<close>

text \<open>\<^verbatim>\<open>str(b).lower()\<close> for a boolean, and \<^verbatim>\<open>'{0}'.format(v)\<close> for a decoded value.\<close>

definition bool_lower :: "bool \<Rightarrow> string" where
  "bool_lower b = (if b then ''true'' else ''false'')"

fun format_value :: "env \<Rightarrow> json \<Rightarrow> string" where
  "format_value e (JStr s) = s"
| "format_value e v = py_repr e v"

text \<open>
  \<^verbatim>\<open>args = {}; for item in arguments: args.update(item)\<close>: the sequence of mappings
  merged into one, later entries winning.
\<close>

definition merge_arguments :: "(string \<rightharpoonup> json) list \<Rightarrow> (string \<rightharpoonup> json)" where
  "merge_arguments arguments = foldl (++) Map.empty arguments"

definition add_exchange ::
  "env \<Rightarrow> cmd list \<Rightarrow> string \<Rightarrow> string \<Rightarrow> int \<Rightarrow> string \<Rightarrow> string \<Rightarrow> string \<Rightarrow> string \<Rightarrow> bool
   \<Rightarrow> bool \<Rightarrow> bool \<Rightarrow> (string \<rightharpoonup> json) list \<Rightarrow> string option
   \<Rightarrow> (error + (string \<times> response) list) \<times> cmd list" where
  "add_exchange e h exchange host port user passwd vhost xtype durable internal auto_delete
                arguments runas_opt =
     (let args = merge_arguments arguments;
          (res, cs) = run e h
            ([AStr ''rabbitmqadmin'', AStr ''declare'', AStr ''exchange'']
             @ conn host port user passwd vhost
             @ [AStr (''name='' @ exchange), AStr (''type='' @ xtype),
                AStr (''durable='' @ bool_lower durable),
                AStr (''internal='' @ bool_lower internal),
                AStr (''auto_delete='' @ bool_lower auto_delete),
                AStr (''arguments='' @ json_dumps e args)]) runas_opt
      in (format_response res ''Added'', cs))"

definition add_queue ::
  "env \<Rightarrow> cmd list \<Rightarrow> string \<Rightarrow> string \<Rightarrow> int \<Rightarrow> string \<Rightarrow> string \<Rightarrow> string \<Rightarrow> bool \<Rightarrow> bool
   \<Rightarrow> (string \<rightharpoonup> json) list \<Rightarrow> string option
   \<Rightarrow> (error + (string \<times> response) list) \<times> cmd list" where
  "add_queue e h queue host port user passwd vhost durable auto_delete arguments runas_opt =
     (let args = merge_arguments arguments;
          (res, cs) = run e h
            ([AStr ''rabbitmqadmin'', AStr ''declare'', AStr ''queue'']
             @ conn host port user passwd vhost
             @ [AStr (''name='' @ queue),
                AStr (''durable='' @ bool_lower durable),
                AStr (''auto_delete='' @ bool_lower auto_delete),
                AStr (''arguments='' @ json_dumps e args)]) runas_opt
      in (format_response res ''Added'', cs))"

definition add_binding ::
  "env \<Rightarrow> cmd list \<Rightarrow> string \<Rightarrow> string \<Rightarrow> string \<Rightarrow> string \<Rightarrow> string \<Rightarrow> int \<Rightarrow> string \<Rightarrow> string
   \<Rightarrow> string \<Rightarrow> (string \<rightharpoonup> json) list \<Rightarrow> string option
   \<Rightarrow> (error + (string \<times> response) list) \<times> cmd list" where
  "add_binding e h binding destination destination_type routing_key host port user passwd vhost
               arguments runas_opt =
     (let args = merge_arguments arguments;
          (res, cs) = run e h
            ([AStr ''rabbitmqadmin'', AStr ''declare'', AStr ''binding'']
             @ conn host port user passwd vhost
             @ [AStr (''source='' @ binding),
                AStr (''destination_type='' @ destination_type),
                AStr (''destination='' @ destination),
                AStr (''routing_key='' @ routing_key),
                AStr (''arguments='' @ json_dumps e args)]) runas_opt
      in (format_response res ''Added'', cs))"

definition delete_exchange ::
  "env \<Rightarrow> cmd list \<Rightarrow> string \<Rightarrow> string \<Rightarrow> int \<Rightarrow> string \<Rightarrow> string \<Rightarrow> string \<Rightarrow> string option
   \<Rightarrow> (error + (string \<times> response) list) \<times> cmd list" where
  "delete_exchange e h exchange host port user passwd vhost runas_opt =
     (let (res, cs) = run e h
            ([AStr ''rabbitmqadmin'', AStr ''delete'', AStr ''exchange'',
              AStr (''name='' @ exchange)]
             @ conn host port user passwd vhost @ [AStr ''--format=table'']) runas_opt
      in (format_response res ''Deleted'', cs))"

definition delete_queue ::
  "env \<Rightarrow> cmd list \<Rightarrow> string \<Rightarrow> string \<Rightarrow> int \<Rightarrow> string \<Rightarrow> string \<Rightarrow> string \<Rightarrow> string option
   \<Rightarrow> (error + (string \<times> response) list) \<times> cmd list" where
  "delete_queue e h queue host port user passwd vhost runas_opt =
     (let (res, cs) = run e h
            ([AStr ''rabbitmqadmin'', AStr ''delete'', AStr ''queue'',
              AStr (''name='' @ queue)]
             @ conn host port user passwd vhost @ [AStr ''--format=table'']) runas_opt
      in (format_response res ''Deleted'', cs))"

definition delete_binding ::
  "env \<Rightarrow> cmd list \<Rightarrow> string \<Rightarrow> string \<Rightarrow> string \<Rightarrow> json \<Rightarrow> string \<Rightarrow> int \<Rightarrow> string \<Rightarrow> string
   \<Rightarrow> string \<Rightarrow> string option \<Rightarrow> (error + (string \<times> response) list) \<times> cmd list" where
  "delete_binding e h binding destination destination_type properties_key host port user passwd
                  vhost runas_opt =
     (let (res, cs) = run e h
            ([AStr ''rabbitmqadmin'', AStr ''delete'', AStr ''binding'',
              AStr (''source='' @ binding), AStr (''destination='' @ destination),
              AStr (''destination_type='' @ destination_type),
              AStr (''properties_key='' @ format_value e properties_key)]
             @ conn host port user passwd vhost @ [AStr ''--format=table'']) runas_opt
      in (format_response res ''Deleted'', cs))"

section \<open>The state modules\<close>

text \<open>
  The record every state function returns: \<^verbatim>\<open>{'name', 'result', 'comment', 'changes'}\<close>.
  \<open>result\<close> is \<open>None\<close> for Python's \<^verbatim>\<open>None\<close>; \<open>comment\<close> holds whatever the code
  stores there (a text, or the response taken out of the client's answer); \<open>changes\<close>
  lists the entries of the dict in the order the source writes them.
\<close>

record ret =
  ret_name :: string
  result :: "bool option"
  comment :: response
  changes :: "(string \<times> string) list"

definition quoted :: "string \<Rightarrow> string" where
  "quoted s = [CHR 0x27] @ s @ [CHR 0x27]"

text \<open>
  What the block under \<^verbatim>\<open>if not __opts__['test']\<close> leaves behind: an exception, an
  early \<^verbatim>\<open>return ret\<close>, or the record to go on with.
\<close>

datatype flow = Raise error | Return ret | Continue ret

text \<open>
  The inspection of the client's answer shared by all six functions:
  \<^verbatim>\<open>if 'Error' in result: ... return ret / elif label in result: ...\<close>.
\<close>

definition inspect :: "ret \<Rightarrow> string \<Rightarrow> (string \<times> response) list \<Rightarrow> flow" where
  "inspect r label res =
     (case map_of res ''Error'' of
        Some v \<Rightarrow> Return (r\<lparr>result := Some False, comment := v\<rparr>)
      | None \<Rightarrow> (case map_of res label of
                  Some v \<Rightarrow> Continue (r\<lparr>comment := v\<rparr>)
                | None \<Rightarrow> Continue r))"

definition after_call :: "ret \<Rightarrow> string \<Rightarrow> error + (string \<times> response) list \<Rightarrow> flow" where
  "after_call r label outcome =
     (case outcome of Inl err \<Rightarrow> Raise err | Inr res \<Rightarrow> inspect r label res)"

text \<open>
  The tail of each function: record the change and, in test mode, overwrite result and
  comment.
\<close>

definition finish :: "env \<Rightarrow> flow \<Rightarrow> (string \<times> string) list \<Rightarrow> string \<Rightarrow> error + ret" where
  "finish e fl chg test_comment =
     (case fl of
        Raise err \<Rightarrow> Inl err
      | Return r \<Rightarrow> Inr r
      | Continue r \<Rightarrow>
          (let r1 = r\<lparr>changes := chg\<rparr>
           in Inr (if opts_test e then r1\<lparr>result := None, comment := RStr test_comment\<rparr>
                   else r1)))"

subsection \<open>\<^verbatim>\<open>_states/rabbitmq_exchange.py\<close>\<close>

definition exchange_present ::
  "env \<Rightarrow> cmd list \<Rightarrow> string \<Rightarrow> string \<Rightarrow> string \<Rightarrow> string \<Rightarrow> bool \<Rightarrow> bool \<Rightarrow> bool \<Rightarrow> int \<Rightarrow> string
   \<Rightarrow> (string \<rightharpoonup> json) list \<Rightarrow> (error + ret) \<times> cmd list" where
  "exchange_present e h name user passwd xtype durable internal auto_delete port vhost arguments =
     (let r = \<lparr>ret_name = name, result = Some True, comment = RStr [], changes = []\<rparr>;
          (ex, cs1) = exchange_exists e h name ''localhost'' port user passwd vhost None
      in (case ex of
            Inl err \<Rightarrow> (Inl err, cs1)
          | Inr found \<Rightarrow>
              if found
              then (Inr (r\<lparr>comment := RStr (''Exchange '' @ quoted name @ '' for vhost ''
                                              @ quoted vhost @ '' already exists.'')\<rparr>), cs1)
              else
                (let (fl, cs2) =
                       (if \<not> opts_test e
                        then (let (outcome, cs) =
                                    add_exchange e (h @ cs1) name ''localhost'' port user passwd
                                      vhost xtype durable internal auto_delete arguments None
                              in (after_call r ''Added'' outcome, cs))
                        else (Continue r, []))
                 in (finish e fl [(''old'', []), (''new'', name)]
                       (''Exchange '' @ quoted name @ '' for vhost '' @ quoted vhost
                        @ '' will be created.''),
                     cs1 @ cs2))))"

definition exchange_absent ::
  "env \<Rightarrow> cmd list \<Rightarrow> string \<Rightarrow> string \<Rightarrow> string \<Rightarrow> int \<Rightarrow> string \<Rightarrow> (error + ret) \<times> cmd list" where
  "exchange_absent e h name user passwd port vhost =
     (let r = \<lparr>ret_name = name, result = Some True, comment = RStr [], changes = []\<rparr>;
          (ex, cs1) = exchange_exists e h name ''localhost'' port user passwd vhost None
      in (case ex of
            Inl err \<Rightarrow> (Inl err, cs1)
          | Inr found \<Rightarrow>
              if \<not> found
              then (Inr (r\<lparr>comment := RStr (''Exchange '' @ quoted name @ '' for vhost ''
                                              @ quoted vhost @ '' already not exists.'')\<rparr>), cs1)
              else
                (let (fl, cs2) =
                       (if \<not> opts_test e
                        then (let (outcome, cs) =
                                    delete_exchange e (h @ cs1) name ''localhost'' port user
                                      passwd vhost None
                              in (after_call r ''Deleted'' outcome, cs))
                        else (Continue r, []))
                 in (finish e fl [(''new'', []), (''old'', name)]
                       (''Exchange '' @ quoted name @ '' will be removed from vhost ''
                        @ quoted vhost @ ''.''),
                     cs1 @ cs2))))"

subsection \<open>\<^verbatim>\<open>_states/rabbitmq_queue.py\<close>\<close>

definition queue_present ::
  "env \<Rightarrow> cmd list \<Rightarrow> string \<Rightarrow> string \<Rightarrow> string \<Rightarrow> bool \<Rightarrow> bool \<Rightarrow> int \<Rightarrow> string
   \<Rightarrow> (string \<rightharpoonup> json) list \<Rightarrow> (error + ret) \<times> cmd list" where
  "queue_present e h name user passwd durable auto_delete port vhost arguments =
     (let r = \<lparr>ret_name = name, result = Some True, comment = RStr [], changes = []\<rparr>;
          (ex, cs1) = queue_exists e h name ''localhost'' port user passwd vhost None
      in (case ex of
            Inl err \<Rightarrow> (Inl err, cs1)
          | Inr found \<Rightarrow>
              if found
              then (Inr (r\<lparr>comment := RStr (''Queue '' @ quoted name @ '' for vhost ''
                                              @ quoted vhost @ '' already exists.'')\<rparr>), cs1)
              else
                (let (fl, cs2) =
                       (if \<not> opts_test e
                        then (let (outcome, cs) =
                                    add_queue e (h @ cs1) name ''localhost'' port user passwd
                                      vhost durable auto_delete arguments None
                              in (after_call r ''Added'' outcome, cs))
                        else (Continue r, []))
                 in (finish e fl [(''old'', []), (''new'', name)]
                       (''Queue '' @ quoted name @ '' for vhost '' @ quoted vhost
                        @ '' will be created.''),
                     cs1 @ cs2))))"

definition queue_absent ::
  "env \<Rightarrow> cmd list \<Rightarrow> string \<Rightarrow> string \<Rightarrow> string \<Rightarrow> int \<Rightarrow> string \<Rightarrow> (error + ret) \<times> cmd list" where
  "queue_absent e h name user passwd port vhost =
     (let r = \<lparr>ret_name = name, result = Some True, comment = RStr [], changes = []\<rparr>;
          (ex, cs1) = queue_exists e h name ''localhost'' port user passwd vhost None
      in (case ex of
            Inl err \<Rightarrow> (Inl err, cs1)
          | Inr found \<Rightarrow>
              if \<not> found
              then (Inr (r\<lparr>comment := RStr (''Queue '' @ quoted name @ '' for vhost ''
                                              @ quoted vhost @ '' already not exists.'')\<rparr>), cs1)
              else
                (let (fl, cs2) =
                       (if \<not> opts_test e
                        then (let (outcome, cs) =
                                    delete_queue e (h @ cs1) name ''localhost'' port user
                                      passwd vhost None
                              in (after_call r ''Deleted'' outcome, cs))
                        else (Continue r, []))
                 in (finish e fl [(''new'', []), (''old'', name)]
                       (''Queue '' @ quoted name @ '' will be removed from vhost ''
                        @ quoted vhost @ ''.''),
                     cs1 @ cs2))))"

subsection \<open>\<^verbatim>\<open>_states/rabbitmq_binding.py\<close>\<close>

definition binding_present ::
  "env \<Rightarrow> cmd list \<Rightarrow> string \<Rightarrow> string \<Rightarrow> string \<Rightarrow> string \<Rightarrow> string \<Rightarrow> string \<Rightarrow> int \<Rightarrow> string
   \<Rightarrow> (string \<rightharpoonup> json) list \<Rightarrow> (error + ret) \<times> cmd list" where
  "binding_present e h name destination destination_type routing_key user passwd port vhost
                   arguments =
     (let r = \<lparr>ret_name = name, result = Some True, comment = RStr [], changes = []\<rparr>;
          (ex, cs1) = binding_exists e h name destination destination_type routing_key
                        ''localhost'' port user passwd vhost None
      in (case ex of
            Inl err \<Rightarrow> (Inl err, cs1)
          | Inr found \<Rightarrow>
              if found
              then (Inr (r\<lparr>comment := RStr (''Binding '' @ quoted name @ '' for vhost ''
                                              @ quoted vhost @ '' already exists.'')\<rparr>), cs1)
              else
                (let (fl, cs2) =
                       (if \<not> opts_test e
                        then (let (outcome, cs) =
                                    add_binding e (h @ cs1) name destination destination_type
                                      routing_key ''localhost'' port user passwd vhost arguments
                                      None
                              in (after_call r ''Added'' outcome, cs))
                        else (Continue r, []))
                 in (finish e fl [(''old'', []), (''new'', name)]
                       (''Binding '' @ quoted name @ '' for vhost '' @ quoted vhost
                        @ '' will be created.''),
                     cs1 @ cs2))))"

text \<open>
  \<^verbatim>\<open>absent(name, destination, routing_key, destination_type, ...)\<close>: the looked-up
  properties key is tested with \<^verbatim>\<open>if not properties_key\<close>; the test-mode comment says
  \<^verbatim>\<open>Exchange\<close> in the source.
\<close>

definition binding_absent ::
  "env \<Rightarrow> cmd list \<Rightarrow> string \<Rightarrow> string \<Rightarrow> string \<Rightarrow> string \<Rightarrow> string \<Rightarrow> string \<Rightarrow> int \<Rightarrow> string
   \<Rightarrow> (error + ret) \<times> cmd list" where
  "binding_absent e h name destination routing_key destination_type user passwd port vhost =
     (let r = \<lparr>ret_name = name, result = Some True, comment = RStr [], changes = []\<rparr>;
          (pk, cs1) = binding_exists_with_props e h name destination destination_type routing_key
                        ''localhost'' port user passwd vhost None
      in (case pk of
            Inl err \<Rightarrow> (Inl err, cs1)
          | Inr properties_key \<Rightarrow>
              if \<not> py_truthy properties_key
              then (Inr (r\<lparr>comment := RStr (''Binding '' @ quoted name @ '' for vhost ''
                                              @ quoted vhost @ '' not exists.'')\<rparr>), cs1)
              else
                (let (fl, cs2) =
                       (if \<not> opts_test e
                        then (let (outcome, cs) =
                                    delete_binding e (h @ cs1) name destination destination_type
                                      properties_key ''localhost'' port user passwd vhost None
                              in (after_call r ''Deleted'' outcome, cs))
                        else (Continue r, []))
                 in (finish e fl [(''new'', []), (''old'', name)]
                       (''Exchange '' @ quoted name @ '' will be removed from vhost ''
                        @ quoted vhost @ ''.''),
                     cs1 @ cs2))))"

section \<open>Reading the calls a function issued\<close>

text \<open>
  The second word of an admin command line says what it does: \<^verbatim>\<open>list\<close>,
  \<^verbatim>\<open>declare\<close> (issued by the add functions only) or \<^verbatim>\<open>delete\<close>.
\<close>

fun verb :: "cmd \<Rightarrow> string" where
  "verb c = (case argv c of _ # AStr v # _ \<Rightarrow> v | _ \<Rightarrow> [])"

definition is_add :: "cmd \<Rightarrow> bool" where
  "is_add c = (verb c = ''declare'')"

definition is_delete :: "cmd \<Rightarrow> bool" where
  "is_delete c = (verb c = ''delete'')"

definition is_mutating :: "cmd \<Rightarrow> bool" where
  "is_mutating c = (is_add c \<or> is_delete c)"

text \<open>The value following the first occurrence of an option on a command line.\<close>

fun option_value :: "string \<Rightarrow> arg list \<Rightarrow> arg option" where
  "option_value opt (a # b # rest) =
     (if a = AStr opt then Some b else option_value opt (b # rest))"
| "option_value opt _ = None"

definition host_of :: "cmd \<Rightarrow> arg option" where
  "host_of c = option_value ''-H'' (argv c)"


section \<open>Rows of a listing\<close>

text \<open>The key under which \<^verbatim>\<open>_output_to_dict\<close> files a row: the text before its first tab.\<close>

definition row_key :: "string \<Rightarrow> string" where
  "row_key row = takeWhile (\<lambda>c. c \<noteq> CHR 0x09) row"

text \<open>A listing as \<^verbatim>\<open>rabbitmqctl list_permissions\<close> prints it, with a bare \<^verbatim>\<open>/\<close> row.\<close>

definition sample_listing :: string where
  "sample_listing =
     ''Listing permissions for user guest ...'' @ [CHR 0x0A]
     @ ''/'' @ [CHR 0x0A]
     @ ''dev'' @ [CHR 0x09] @ ''.*'' @ [CHR 0x09] @ ''.*'' @ [CHR 0x09] @ ''.*'' @ [CHR 0x0A]
     @ ''...done.'' @ [CHR 0x0A]"

section \<open>A sample broker\<close>

text \<open>
  The listing call every state function opens with: \<^verbatim>\<open>rabbitmqadmin list <kind>\<close>
  against \<^verbatim>\<open>localhost\<close>, run as the invoking user.
\<close>

definition list_cmd :: "env \<Rightarrow> string \<Rightarrow> int \<Rightarrow> string \<Rightarrow> string \<Rightarrow> string \<Rightarrow> cmd" where
  "list_cmd e kind port user passwd vhost =
     \<lparr>argv = [AStr ''rabbitmqadmin'', AStr ''list'', AStr kind]
              @ conn ''localhost'' port user passwd vhost @ [AStr ''--format=raw_json''],
      runas = get_user e\<rparr>"

text \<open>
  A broker holding an exchange and a queue named \<^verbatim>\<open>orders\<close> and two bindings of that
  exchange, the second with an empty routing key and an empty properties key. Its
  listings are the texts below; \<open>sample_loads\<close> decodes exactly these texts, and every
  declare or delete is answered with the given reply.
\<close>

definition exchanges_text :: string where
  \<open>exchanges_text = ''[{"name":"orders","vhost":"/","type":"fanout"}]''\<close>

definition queues_text :: string where
  \<open>queues_text = ''[{"name":"orders","vhost":"/","durable":true}]''\<close>

definition bindings_text :: string where
  \<open>bindings_text = ''[{"source":"orders","vhost":"/","destination":"orders","destination_type":"queue","routing_key":"new","arguments":{},"properties_key":"new"},{"source":"orders","vhost":"/","destination":"audit","destination_type":"queue","routing_key":"","arguments":{},"properties_key":""}]''\<close>

definition sample_bindings :: "json list" where
  "sample_bindings =
     [JObj [(''source'', JStr ''orders''), (''vhost'', JStr ''/''),
            (''destination'', JStr ''orders''), (''destination_type'', JStr ''queue''),
            (''routing_key'', JStr ''new''), (''arguments'', JObj []),
            (''properties_key'', JStr ''new'')],
      JObj [(''source'', JStr ''orders''), (''vhost'', JStr ''/''),
            (''destination'', JStr ''audit''), (''destination_type'', JStr ''queue''),
            (''routing_key'', JStr []), (''arguments'', JObj []),
            (''properties_key'', JStr [])]]"

definition sample_loads :: "string \<Rightarrow> json option" where
  "sample_loads s =
     (if s = ''[]'' then Some (JList [])
      else if s = exchanges_text then
        Some (JList [JObj [(''name'', JStr ''orders''), (''vhost'', JStr ''/''),
                           (''type'', JStr ''fanout'')]])
      else if s = queues_text then
        Some (JList [JObj [(''name'', JStr ''orders''), (''vhost'', JStr ''/''),
                           (''durable'', JBool True)]])
      else if s = bindings_text then Some (JList sample_bindings)
      else None)"

definition sample_run :: "string \<Rightarrow> cmd list \<Rightarrow> cmd \<Rightarrow> response" where
  "sample_run reply h c =
     (case argv c of
        [] \<Rightarrow> RStr []
      | [_] \<Rightarrow> RStr []
      | _ # a # rest \<Rightarrow>
          if a \<noteq> AStr ''list'' then RStr reply
          else (case rest of
                  [] \<Rightarrow> RStr []
                | k # _ \<Rightarrow>
                    if k = AStr ''exchanges'' then RStr exchanges_text
                    else if k = AStr ''queues'' then RStr queues_text
                    else if k = AStr ''bindings'' then RStr bindings_text
                    else RStr ''[]''))"

definition sample_env :: "bool \<Rightarrow> string \<Rightarrow> env" where
  "sample_env test reply =
     \<lparr>cmd_run = sample_run reply, json_loads = sample_loads,
      json_dumps = (\<lambda>m. ''{}''), py_repr = (\<lambda>v. []), get_user = ''root'',
      opts_test = test\<rparr>"

section \<open>The identity of a binding\<close>

text \<open>
  The spec's notion of a listed binding record and of binding identity, for comparison
  with the loops of \<^verbatim>\<open>binding_exists\<close> and \<^verbatim>\<open>binding_exists_with_props\<close>: a record
  is a JSON object carrying the five identity fields, and it is the binding asked for
  when those five fields hold the five given strings. Neither looks at \<^verbatim>\<open>arguments\<close>
  or \<^verbatim>\<open>properties_key\<close>.
\<close>

definition field :: "json \<Rightarrow> string \<Rightarrow> json option" where
  "field item k = (case item of JObj kvs \<Rightarrow> map_of kvs k | _ \<Rightarrow> None)"

definition is_binding_record :: "json \<Rightarrow> bool" where
  "is_binding_record item =
     (case item of
        JObj kvs \<Rightarrow>
          list_all (\<lambda>k. map_of kvs k \<noteq> None)
            [''source'', ''destination'', ''destination_type'', ''routing_key'', ''vhost'']
      | _ \<Rightarrow> False)"

definition same_binding :: "string \<Rightarrow> string \<Rightarrow> string \<Rightarrow> string \<Rightarrow> string \<Rightarrow> json \<Rightarrow> bool" where
  "same_binding name destination destination_type routing_key vhost item =
     (field item ''source'' = Some (JStr name)
      \<and> field item ''destination'' = Some (JStr destination)
      \<and> field item ''destination_type'' = Some (JStr destination_type)
      \<and> field item ''routing_key'' = Some (JStr routing_key)
      \<and> field item ''vhost'' = Some (JStr vhost))"

text \<open>The listing call of the two binding queries, for any host and \<^verbatim>\<open>runas\<close>.\<close>

definition bindings_list_cmd ::
  "env \<Rightarrow> string \<Rightarrow> int \<Rightarrow> string \<Rightarrow> string \<Rightarrow> string \<Rightarrow> string option \<Rightarrow> cmd" where
  "bindings_list_cmd e host port user passwd vhost runas_opt =
     \<lparr>argv = [AStr ''rabbitmqadmin'', AStr ''list'', AStr ''bindings'']
              @ conn host port user passwd vhost @ [AStr ''--format=raw_json''],
      runas = (case runas_opt of None \<Rightarrow> get_user e | Some u \<Rightarrow> u)\<rparr>"


lemmas sample_defs = sample_env_def sample_run_def sample_loads_def exchanges_text_def
  queues_text_def bindings_text_def sample_bindings_def

lemmas client_defs = exchange_exists_def queue_exists_def binding_exists_def
  binding_exists_with_props_def add_exchange_def add_queue_def add_binding_def
  delete_exchange_def delete_queue_def delete_binding_def run_def loads_def conn_def
  field_is_def and_then_def binding_cond_def merge_arguments_def bool_lower_def

lemmas state_defs = exchange_present_def exchange_absent_def queue_present_def
  queue_absent_def binding_present_def binding_absent_def finish_def after_call_def
  inspect_def quoted_def

section \<open>Response normalisation\<close>

lemma str_in_sublist: "str_in sub s \<longleftrightarrow> sublist sub s"
  by (induction s) (simp_all add: sublist_Cons_right)

text \<open>
  Claim C4. \<^verbatim>\<open>_format_response\<close> is a four-way case split: a mapping with a nonzero
  return code raises an execution error; a mapping with return code zero is returned
  under its own \<^verbatim>\<open>stdout\<close> text as key; a plain string in which \<^verbatim>\<open>Error\<close> occurs raises
  an execution error; any other plain string is returned under the label the caller
  supplied.
\<close>

theorem format_response_four_cases:
  "(retcode d \<noteq> 0 \<longrightarrow> format_response (RDict d) msg = Inl (CommandExecutionError (RDict d)))
   \<and> (retcode d = 0 \<longrightarrow> format_response (RDict d) msg = Inr [(stdout d, RDict d)])
   \<and> (sublist ''Error'' s \<longrightarrow>
        format_response (RStr s) msg = Inl (CommandExecutionError (RStr s)))
   \<and> (\<not> sublist ''Error'' s \<longrightarrow> format_response (RStr s) msg = Inr [(msg, RStr s)])"
  by (simp add: str_in_sublist)

theorem format_response_four_cases_witness:
  "(retcode \<lparr>retcode = 1, stdout = ''boom''\<rparr> \<noteq> 0
     \<and> format_response (RDict \<lparr>retcode = 1, stdout = ''boom''\<rparr>) ''Added''
         = Inl (CommandExecutionError (RDict \<lparr>retcode = 1, stdout = ''boom''\<rparr>)))
   \<and> (retcode \<lparr>retcode = 0, stdout = ''queue declared''\<rparr> = 0
     \<and> format_response (RDict \<lparr>retcode = 0, stdout = ''queue declared''\<rparr>) ''Added''
         = Inr [(stdout \<lparr>retcode = 0, stdout = ''queue declared''\<rparr>,
                 RDict \<lparr>retcode = 0, stdout = ''queue declared''\<rparr>)])
   \<and> (sublist ''Error'' ''*** Error: refused''
     \<and> format_response (RStr ''*** Error: refused'') ''Deleted''
         = Inl (CommandExecutionError (RStr ''*** Error: refused'')))
   \<and> (\<not> sublist ''Error'' ''queue declared''
     \<and> format_response (RStr ''queue declared'') ''Added''
         = Inr [(''Added'', RStr ''queue declared'')])"
proof -
  have h1: "retcode \<lparr>retcode = 1, stdout = ''boom''\<rparr> \<noteq> 0" by simp
  have h2: "retcode \<lparr>retcode = 0, stdout = ''queue declared''\<rparr> = 0" by simp
  have h3: "sublist ''Error'' ''*** Error: refused''"
    by (simp add: str_in_sublist [symmetric])
  have h4: "\<not> sublist ''Error'' ''queue declared''"
    by (simp add: str_in_sublist [symmetric])
  note a = format_response_four_cases
    [of "\<lparr>retcode = 1, stdout = ''boom''\<rparr>" "''Added''" "''*** Error: refused''"]
  note b = format_response_four_cases
    [of "\<lparr>retcode = 0, stdout = ''queue declared''\<rparr>" "''Added''" "''queue declared''"]
  note c = format_response_four_cases
    [of "\<lparr>retcode = 1, stdout = ''boom''\<rparr>" "''Deleted''" "''*** Error: refused''"]
  from a h1 have c1: "format_response (RDict \<lparr>retcode = 1, stdout = ''boom''\<rparr>) ''Added''
         = Inl (CommandExecutionError (RDict \<lparr>retcode = 1, stdout = ''boom''\<rparr>))"
    by blast
  from b h2 have c2: "format_response (RDict \<lparr>retcode = 0, stdout = ''queue declared''\<rparr>) ''Added''
         = Inr [(stdout \<lparr>retcode = 0, stdout = ''queue declared''\<rparr>,
                 RDict \<lparr>retcode = 0, stdout = ''queue declared''\<rparr>)]"
    by blast
  from c h3 have c3: "format_response (RStr ''*** Error: refused'') ''Deleted''
         = Inl (CommandExecutionError (RStr ''*** Error: refused''))"
    by blast
  from b h4 have c4: "format_response (RStr ''queue declared'') ''Added''
         = Inr [(''Added'', RStr ''queue declared'')]"
    by blast
  from h1 h2 h3 h4 c1 c2 c3 c4 show ?thesis by blast
qed

section \<open>Rows without a tab\<close>

lemma row_key_no_tab: "CHR 0x09 \<notin> set row \<Longrightarrow> row_key row = row"
  unfolding row_key_def by (induction row) auto

lemma output_row_no_tab:
  "CHR 0x09 \<notin> set row \<Longrightarrow> output_row m ret row = ret(row \<mapsto> Text [])"
  by (simp add: output_row_def split_once_def)

lemma output_row_other: "row_key row \<noteq> k \<Longrightarrow> output_row m ret row k = ret k"
  by (auto simp: output_row_def split_once_def row_key_no_tab row_key_def)

lemma output_rows_other:
  "\<forall>r\<in>set rows. row_key r \<noteq> k \<Longrightarrow> output_rows m ret rows k = ret k"
  by (induction rows arbitrary: ret) (simp_all add: output_row_other)

lemma output_rows_no_tab:
  assumes "row \<in> set rows" "CHR 0x09 \<notin> set row"
    and "\<forall>r\<in>set rows. CHR 0x09 \<in> set r \<longrightarrow> row_key r \<noteq> row"
  shows "output_rows m ret rows row = Some (Text [])"
  using assms
proof (induction rows arbitrary: ret)
  case Nil
  then show ?case by simp
next
  case (Cons r rows)
  show ?case
  proof (cases "row \<in> set rows")
    case True
    with Cons show ?thesis by simp
  next
    case False
    with Cons.prems have eq: "r = row" by simp
    have "\<forall>x\<in>set rows. row_key x \<noteq> row"
    proof
      fix x assume x: "x \<in> set rows"
      show "row_key x \<noteq> row"
      proof (cases "CHR 0x09 \<in> set x")
        case True
        with Cons.prems x show ?thesis by simp
      next
        case False
        then have "row_key x = x" by (rule row_key_no_tab)
        with x \<open>row \<notin> set rows\<close> show ?thesis by auto
      qed
    qed
    then have "output_rows m (output_row m ret r) rows row = output_row m ret r row"
      by (rule output_rows_other)
    with eq Cons.prems(2) show ?thesis by (simp add: output_row_no_tab)
  qed
qed

lemma sample_listing_rows:
  "strip_listing_to_done (splitlines sample_listing)
     = [''/'', ''dev'' @ [CHR 0x09] @ ''.*'' @ [CHR 0x09] @ ''.*'' @ [CHR 0x09] @ ''.*'']"
  by (simp add: sample_listing_def splitlines_def line_boundary_def strip_listing_to_done_def
      safe_output_def suffix_to_prefix)

text \<open>
  Claim C7. A data row without a tab is filed under the whole row with the empty string
  as value: the loop body does exactly that to the dict built so far, with no exception
  left to the caller; in the dict \<^verbatim>\<open>_output_to_dict\<close> returns, with a mapper given or
  with the default one, the row still maps to the empty string unless some data row with
  values is filed under the same key (the dict keeps one entry per key), and the same
  holds of the loop over any list of data rows; the output \<^verbatim>\<open>/\<close> parses to the dict
  with the one entry \<^verbatim>\<open>'/': ''\<close>. Two whole outputs are parsed as well: the sample
  listing, and an output whose only line boundary is a form feed.
\<close>

theorem output_to_dict_row_without_tab:
  "(CHR 0x09 \<notin> set row \<longrightarrow> output_row values_mapper ret row = ret(row \<mapsto> Text []))
   \<and> (row \<in> set (strip_listing_to_done (splitlines cmdoutput))
        \<and> CHR 0x09 \<notin> set row
        \<and> (\<forall>r \<in> set (strip_listing_to_done (splitlines cmdoutput)).
              CHR 0x09 \<in> set r \<longrightarrow> row_key r \<noteq> row)
      \<longrightarrow> output_to_dict_with cmdoutput values_mapper row = Some (Text []))
   \<and> output_to_dict ''/'' = [''/'' \<mapsto> Text []]
   \<and> (row \<in> set (strip_listing_to_done (splitlines cmdoutput))
        \<and> CHR 0x09 \<notin> set row
        \<and> (\<forall>r \<in> set (strip_listing_to_done (splitlines cmdoutput)).
              CHR 0x09 \<in> set r \<longrightarrow> row_key r \<noteq> row)
      \<longrightarrow> output_to_dict cmdoutput row = Some (Text []))
   \<and> (row \<in> set data_rows
        \<and> CHR 0x09 \<notin> set row
        \<and> (\<forall>r \<in> set data_rows. CHR 0x09 \<in> set r \<longrightarrow> row_key r \<noteq> row)
      \<longrightarrow> output_rows values_mapper ret data_rows row = Some (Text []))
   \<and> output_to_dict sample_listing
       = [''/'' \<mapsto> Text [], ''dev'' \<mapsto> Mapped [''.*'', ''.*'', ''.*'']]
   \<and> output_to_dict (''a'' @ [CHR 0x0C] @ ''b'' @ [CHR 0x09] @ ''v'')
       = [''a'' \<mapsto> Text [], ''b'' \<mapsto> Mapped [''v'']]"
proof (intro conjI impI)
  assume "CHR 0x09 \<notin> set row"
  then show "output_row values_mapper ret row = ret(row \<mapsto> Text [])"
    by (rule output_row_no_tab)
next
  assume "row \<in> set (strip_listing_to_done (splitlines cmdoutput))
        \<and> CHR 0x09 \<notin> set row
        \<and> (\<forall>r \<in> set (strip_listing_to_done (splitlines cmdoutput)).
              CHR 0x09 \<in> set r \<longrightarrow> row_key r \<noteq> row)"
  then show "output_to_dict_with cmdoutput values_mapper row = Some (Text [])"
    unfolding output_to_dict_with_def by (intro output_rows_no_tab) simp_all
next
  show "output_to_dict ''/'' = [''/'' \<mapsto> Text []]"
    by (simp add: output_to_dict_def output_to_dict_with_def splitlines_def line_boundary_def
        strip_listing_to_done_def safe_output_def output_row_def split_once_def)
next
  assume "row \<in> set (strip_listing_to_done (splitlines cmdoutput))
        \<and> CHR 0x09 \<notin> set row
        \<and> (\<forall>r \<in> set (strip_listing_to_done (splitlines cmdoutput)).
              CHR 0x09 \<in> set r \<longrightarrow> row_key r \<noteq> row)"
  then show "output_to_dict cmdoutput row = Some (Text [])"
    unfolding output_to_dict_def output_to_dict_with_def
    by (intro output_rows_no_tab) simp_all
next
  assume "row \<in> set data_rows
        \<and> CHR 0x09 \<notin> set row
        \<and> (\<forall>r \<in> set data_rows. CHR 0x09 \<in> set r \<longrightarrow> row_key r \<noteq> row)"
  then show "output_rows values_mapper ret data_rows row = Some (Text [])"
    by (intro output_rows_no_tab) simp_all
next
  show "output_to_dict sample_listing
       = [''/'' \<mapsto> Text [], ''dev'' \<mapsto> Mapped [''.*'', ''.*'', ''.*'']]"
    by (simp add: output_to_dict_def output_to_dict_with_def sample_listing_rows
        output_row_def split_once_def)
next
  show "output_to_dict (''a'' @ [CHR 0x0C] @ ''b'' @ [CHR 0x09] @ ''v'')
       = [''a'' \<mapsto> Text [], ''b'' \<mapsto> Mapped [''v'']]"
    by (simp add: output_to_dict_def output_to_dict_with_def splitlines_def line_boundary_def
        strip_listing_to_done_def safe_output_def output_row_def split_once_def)
qed

theorem output_to_dict_row_without_tab_witness:
  "CHR 0x09 \<notin> set ''/''
   \<and> output_row (split_on CHR 0x09) Map.empty ''/'' = [''/'' \<mapsto> Text []]
   \<and> strip_listing_to_done (splitlines sample_listing)
       = [''/'', ''dev'' @ [CHR 0x09] @ ''.*'' @ [CHR 0x09] @ ''.*'' @ [CHR 0x09] @ ''.*'']
   \<and> row_key (''dev'' @ [CHR 0x09] @ ''.*'' @ [CHR 0x09] @ ''.*'' @ [CHR 0x09] @ ''.*'') = ''dev''
   \<and> output_to_dict_with sample_listing (split_on CHR 0x09) ''/'' = Some (Text [])
   \<and> output_to_dict sample_listing ''/'' = Some (Text [])
   \<and> output_rows (split_on CHR 0x09) Map.empty
         (strip_listing_to_done (splitlines sample_listing)) ''/''
       = Some (Text [])"
proof -
  have h1: "CHR 0x09 \<notin> set ''/''" by simp
  have k: "row_key (''dev'' @ [CHR 0x09] @ ''.*'' @ [CHR 0x09] @ ''.*'' @ [CHR 0x09] @ ''.*'')
             = ''dev''"
    by (simp add: row_key_def)
  have h2: "''/'' \<in> set (strip_listing_to_done (splitlines sample_listing))
        \<and> CHR 0x09 \<notin> set ''/''
        \<and> (\<forall>r \<in> set (strip_listing_to_done (splitlines sample_listing)).
              CHR 0x09 \<in> set r \<longrightarrow> row_key r \<noteq> ''/'')"
    by (simp add: sample_listing_rows row_key_def)
  note t = output_to_dict_row_without_tab
    [where row = "''/''" and values_mapper = "split_on CHR 0x09" and ret = Map.empty
       and cmdoutput = sample_listing
       and data_rows = "strip_listing_to_done (splitlines sample_listing)"]
  from t h1 have c1: "output_row (split_on CHR 0x09) Map.empty ''/'' = [''/'' \<mapsto> Text []]"
    by blast
  from t h2 have c2: "output_to_dict_with sample_listing (split_on CHR 0x09) ''/'' = Some (Text [])"
    by blast
  from t h2 have c3: "output_to_dict sample_listing ''/'' = Some (Text [])"
    by blast
  from t h2 have c4: "output_rows (split_on CHR 0x09) Map.empty
         (strip_listing_to_done (splitlines sample_listing)) ''/''
       = Some (Text [])"
    by blast
  from h1 c1 sample_listing_rows k c2 c3 c4 show ?thesis by blast
qed

section \<open>The calls each function issues\<close>

lemma exchange_exists_calls:
  "snd (exchange_exists e h name ''localhost'' port user passwd vhost None)
     = [list_cmd e ''exchanges'' port user passwd vhost]"
  by (simp add: exchange_exists_def run_def list_cmd_def Let_def split: sum.splits)

lemma queue_exists_calls:
  "snd (queue_exists e h name ''localhost'' port user passwd vhost None)
     = [list_cmd e ''queues'' port user passwd vhost]"
  by (simp add: queue_exists_def run_def list_cmd_def Let_def split: sum.splits)

lemma binding_exists_calls:
  "snd (binding_exists e h name d dt rk ''localhost'' port user passwd vhost None)
     = [list_cmd e ''bindings'' port user passwd vhost]"
  by (simp add: binding_exists_def run_def list_cmd_def Let_def split: sum.splits)

lemma binding_exists_with_props_calls:
  "snd (binding_exists_with_props e h name d dt rk ''localhost'' port user passwd vhost None)
     = [list_cmd e ''bindings'' port user passwd vhost]"
  by (simp add: binding_exists_with_props_def run_def list_cmd_def Let_def split: sum.splits)

lemmas exists_calls = exchange_exists_calls queue_exists_calls binding_exists_calls
  binding_exists_with_props_calls

lemma list_cmd_not_mutating:
  "\<not> is_add (list_cmd e kind port user passwd vhost)"
  "\<not> is_delete (list_cmd e kind port user passwd vhost)"
  "\<not> is_mutating (list_cmd e kind port user passwd vhost)"
  by (simp_all add: is_mutating_def is_add_def is_delete_def list_cmd_def)

lemma list_cmd_host:
  "kind \<noteq> ''-H'' \<Longrightarrow> host_of (list_cmd e kind port user passwd vhost) = Some (AStr ''localhost'')"
  by (simp add: list_cmd_def host_of_def conn_def)

lemma add_exchange_calls:
  "\<exists>c. snd (add_exchange e h name host port user passwd vhost t d i a args r) = [c]
       \<and> verb c = ''declare'' \<and> host_of c = Some (AStr host)"
  by (simp add: add_exchange_def run_def Let_def host_of_def conn_def)

lemma add_queue_calls:
  "\<exists>c. snd (add_queue e h name host port user passwd vhost d a args r) = [c]
       \<and> verb c = ''declare'' \<and> host_of c = Some (AStr host)"
  by (simp add: add_queue_def run_def Let_def host_of_def conn_def)

lemma add_binding_calls:
  "\<exists>c. snd (add_binding e h name d dt rk host port user passwd vhost args r) = [c]
       \<and> verb c = ''declare'' \<and> host_of c = Some (AStr host)"
  by (simp add: add_binding_def run_def Let_def host_of_def conn_def)

lemma delete_exchange_calls:
  "\<exists>c. snd (delete_exchange e h name host port user passwd vhost r) = [c]
       \<and> verb c = ''delete'' \<and> host_of c = Some (AStr host)"
  by (simp add: delete_exchange_def run_def Let_def host_of_def conn_def)

lemma delete_queue_calls:
  "\<exists>c. snd (delete_queue e h name host port user passwd vhost r) = [c]
       \<and> verb c = ''delete'' \<and> host_of c = Some (AStr host)"
  by (simp add: delete_queue_def run_def Let_def host_of_def conn_def)

lemma delete_binding_calls:
  "\<exists>c. snd (delete_binding e h name d dt pk host port user passwd vhost r) = [c]
       \<and> verb c = ''delete'' \<and> host_of c = Some (AStr host)"
  by (simp add: delete_binding_def run_def Let_def host_of_def conn_def)

text \<open>What a list of calls has to look like for the counting below.\<close>

lemma declare_call_counts:
  assumes "\<exists>c. cs = [c] \<and> verb c = ''declare'' \<and> host_of c = Some (AStr ''localhost'')"
  shows "length (filter is_mutating cs) = 1" and "filter is_delete cs = []"
    and "\<And>c. c \<in> set cs \<Longrightarrow> host_of c = Some (AStr ''localhost'')"
  using assms by (auto simp: is_mutating_def is_add_def is_delete_def)

lemma delete_call_counts:
  assumes "\<exists>c. cs = [c] \<and> verb c = ''delete'' \<and> host_of c = Some (AStr ''localhost'')"
  shows "length (filter is_mutating cs) = 1" and "filter is_add cs = []"
    and "\<And>c. c \<in> set cs \<Longrightarrow> host_of c = Some (AStr ''localhost'')"
  using assms by (auto simp: is_mutating_def is_add_def is_delete_def)

lemma exchange_present_calls:
  "snd (exchange_present e h name user passwd xtype durable internal auto_delete port vhost arguments)
     = list_cmd e ''exchanges'' port user passwd vhost
       # (case fst (exchange_exists e h name ''localhost'' port user passwd vhost None) of
            Inl err \<Rightarrow> []
          | Inr found \<Rightarrow> if \<not> found \<and> \<not> opts_test e
                         then snd (add_exchange e (h @ [list_cmd e ''exchanges'' port user passwd vhost]) name ''localhost'' port user passwd vhost xtype durable internal auto_delete arguments None) else [])"
  by (simp add: exchange_present_def Let_def case_prod_beta exists_calls split: sum.splits)

lemma exchange_absent_calls:
  "snd (exchange_absent e h name user passwd port vhost)
     = list_cmd e ''exchanges'' port user passwd vhost
       # (case fst (exchange_exists e h name ''localhost'' port user passwd vhost None) of
            Inl err \<Rightarrow> []
          | Inr found \<Rightarrow> if found \<and> \<not> opts_test e
                         then snd (delete_exchange e (h @ [list_cmd e ''exchanges'' port user passwd vhost]) name ''localhost'' port user passwd vhost None) else [])"
  by (simp add: exchange_absent_def Let_def case_prod_beta exists_calls split: sum.splits)

lemma queue_present_calls:
  "snd (queue_present e h name user passwd durable auto_delete port vhost arguments)
     = list_cmd e ''queues'' port user passwd vhost
       # (case fst (queue_exists e h name ''localhost'' port user passwd vhost None) of
            Inl err \<Rightarrow> []
          | Inr found \<Rightarrow> if \<not> found \<and> \<not> opts_test e
                         then snd (add_queue e (h @ [list_cmd e ''queues'' port user passwd vhost]) name ''localhost'' port user passwd vhost durable auto_delete arguments None) else [])"
  by (simp add: queue_present_def Let_def case_prod_beta exists_calls split: sum.splits)

lemma queue_absent_calls:
  "snd (queue_absent e h name user passwd port vhost)
     = list_cmd e ''queues'' port user passwd vhost
       # (case fst (queue_exists e h name ''localhost'' port user passwd vhost None) of
            Inl err \<Rightarrow> []
          | Inr found \<Rightarrow> if found \<and> \<not> opts_test e
                         then snd (delete_queue e (h @ [list_cmd e ''queues'' port user passwd vhost]) name ''localhost'' port user passwd vhost None) else [])"
  by (simp add: queue_absent_def Let_def case_prod_beta exists_calls split: sum.splits)

lemma binding_present_calls:
  "snd (binding_present e h name destination destination_type routing_key user passwd port vhost arguments)
     = list_cmd e ''bindings'' port user passwd vhost
       # (case fst (binding_exists e h name destination destination_type routing_key ''localhost'' port user passwd vhost None) of
            Inl err \<Rightarrow> []
          | Inr found \<Rightarrow> if \<not> found \<and> \<not> opts_test e
                         then snd (add_binding e (h @ [list_cmd e ''bindings'' port user passwd vhost]) name destination destination_type routing_key ''localhost'' port user passwd vhost arguments None) else [])"
  by (simp add: binding_present_def Let_def case_prod_beta exists_calls split: sum.splits)

lemma binding_absent_calls:
  "snd (binding_absent e h name destination routing_key destination_type user passwd port vhost)
     = list_cmd e ''bindings'' port user passwd vhost
       # (case fst (binding_exists_with_props e h name destination destination_type routing_key ''localhost'' port user passwd vhost None) of
            Inl err \<Rightarrow> []
          | Inr pk \<Rightarrow> if py_truthy pk \<and> \<not> opts_test e
                      then snd (delete_binding e (h @ [list_cmd e ''bindings'' port user passwd vhost]) name destination destination_type pk ''localhost'' port user passwd vhost None) else [])"
  by (simp add: binding_absent_def Let_def case_prod_beta exists_calls split: sum.splits)

lemma exchange_present_noop:
  "fst (exchange_exists e h name ''localhost'' port user passwd vhost None) = Inr True \<Longrightarrow>
   exchange_present e h name user passwd xtype durable internal auto_delete port vhost arguments
     = (Inr \<lparr>ret_name = name, result = Some True, comment = RStr (''Exchange '' @ quoted name @ '' for vhost '' @ quoted vhost @ '' already exists.''), changes = []\<rparr>,
        [list_cmd e ''exchanges'' port user passwd vhost])"
  by (simp add: exchange_present_def Let_def case_prod_beta exists_calls)

lemma exchange_absent_noop:
  "fst (exchange_exists e h name ''localhost'' port user passwd vhost None) = Inr False \<Longrightarrow>
   exchange_absent e h name user passwd port vhost
     = (Inr \<lparr>ret_name = name, result = Some True, comment = RStr (''Exchange '' @ quoted name @ '' for vhost '' @ quoted vhost @ '' already not exists.''), changes = []\<rparr>,
        [list_cmd e ''exchanges'' port user passwd vhost])"
  by (simp add: exchange_absent_def Let_def case_prod_beta exists_calls)

lemma queue_present_noop:
  "fst (queue_exists e h name ''localhost'' port user passwd vhost None) = Inr True \<Longrightarrow>
   queue_present e h name user passwd durable auto_delete port vhost arguments
     = (Inr \<lparr>ret_name = name, result = Some True, comment = RStr (''Queue '' @ quoted name @ '' for vhost '' @ quoted vhost @ '' already exists.''), changes = []\<rparr>,
        [list_cmd e ''queues'' port user passwd vhost])"
  by (simp add: queue_present_def Let_def case_prod_beta exists_calls)

lemma queue_absent_noop:
  "fst (queue_exists e h name ''localhost'' port user passwd vhost None) = Inr False \<Longrightarrow>
   queue_absent e h name user passwd port vhost
     = (Inr \<lparr>ret_name = name, result = Some True, comment = RStr (''Queue '' @ quoted name @ '' for vhost '' @ quoted vhost @ '' already not exists.''), changes = []\<rparr>,
        [list_cmd e ''queues'' port user passwd vhost])"
  by (simp add: queue_absent_def Let_def case_prod_beta exists_calls)

lemma binding_present_noop:
  "fst (binding_exists e h name destination destination_type routing_key ''localhost'' port user passwd vhost None) = Inr True \<Longrightarrow>
   binding_present e h name destination destination_type routing_key user passwd port vhost arguments
     = (Inr \<lparr>ret_name = name, result = Some True, comment = RStr (''Binding '' @ quoted name @ '' for vhost '' @ quoted vhost @ '' already exists.''), changes = []\<rparr>,
        [list_cmd e ''bindings'' port user passwd vhost])"
  by (simp add: binding_present_def Let_def case_prod_beta exists_calls)

lemma binding_absent_noop:
  "fst (binding_exists_with_props e h name destination destination_type routing_key ''localhost'' port user passwd vhost None) = Inr pk \<Longrightarrow> \<not> py_truthy pk \<Longrightarrow>
   binding_absent e h name destination routing_key destination_type user passwd port vhost
     = (Inr \<lparr>ret_name = name, result = Some True, comment = RStr (''Binding '' @ quoted name @ '' for vhost '' @ quoted vhost @ '' not exists.''), changes = []\<rparr>,
        [list_cmd e ''bindings'' port user passwd vhost])"
  by (simp add: binding_absent_def Let_def case_prod_beta exists_calls)

lemma exchange_present_dry_run:
  "opts_test e \<Longrightarrow>
   exchange_present e h name user passwd xtype durable internal auto_delete port vhost arguments
     = (case fst (exchange_exists e h name ''localhost'' port user passwd vhost None) of
          Inl err \<Rightarrow> Inl err
        | Inr found \<Rightarrow>
            Inr (if found
                 then \<lparr>ret_name = name, result = Some True, comment = RStr (''Exchange '' @ quoted name @ '' for vhost '' @ quoted vhost @ '' already exists.''), changes = []\<rparr>
                 else \<lparr>ret_name = name, result = None, comment = RStr (''Exchange '' @ quoted name @ '' for vhost '' @ quoted vhost @ '' will be created.''), changes = [(''old'', []), (''new'', name)]\<rparr>),
        [list_cmd e ''exchanges'' port user passwd vhost])"
  by (simp add: exchange_present_def Let_def case_prod_beta exists_calls finish_def
      split: sum.splits)

lemma exchange_absent_dry_run:
  "opts_test e \<Longrightarrow>
   exchange_absent e h name user passwd port vhost
     = (case fst (exchange_exists e h name ''localhost'' port user passwd vhost None) of
          Inl err \<Rightarrow> Inl err
        | Inr found \<Rightarrow>
            Inr (if \<not> found
                 then \<lparr>ret_name = name, result = Some True, comment = RStr (''Exchange '' @ quoted name @ '' for vhost '' @ quoted vhost @ '' already not exists.''), changes = []\<rparr>
                 else \<lparr>ret_name = name, result = None, comment = RStr (''Exchange '' @ quoted name @ '' will be removed from vhost '' @ quoted vhost @ ''.''), changes = [(''new'', []), (''old'', name)]\<rparr>),
        [list_cmd e ''exchanges'' port user passwd vhost])"
  by (simp add: exchange_absent_def Let_def case_prod_beta exists_calls finish_def
      split: sum.splits)

lemma queue_present_dry_run:
  "opts_test e \<Longrightarrow>
   queue_present e h name user passwd durable auto_delete port vhost arguments
     = (case fst (queue_exists e h name ''localhost'' port user passwd vhost None) of
          Inl err \<Rightarrow> Inl err
        | Inr found \<Rightarrow>
            Inr (if found
                 then \<lparr>ret_name = name, result = Some True, comment = RStr (''Queue '' @ quoted name @ '' for vhost '' @ quoted vhost @ '' already exists.''), changes = []\<rparr>
                 else \<lparr>ret_name = name, result = None, comment = RStr (''Queue '' @ quoted name @ '' for vhost '' @ quoted vhost @ '' will be created.''), changes = [(''old'', []), (''new'', name)]\<rparr>),
        [list_cmd e ''queues'' port user passwd vhost])"
  by (simp add: queue_present_def Let_def case_prod_beta exists_calls finish_def
      split: sum.splits)

lemma queue_absent_dry_run:
  "opts_test e \<Longrightarrow>
   queue_absent e h name user passwd port vhost
     = (case fst (queue_exists e h name ''localhost'' port user passwd vhost None) of
          Inl err \<Rightarrow> Inl err
        | Inr found \<Rightarrow>
            Inr (if \<not> found
                 then \<lparr>ret_name = name, result = Some True, comment = RStr (''Queue '' @ quoted name @ '' for vhost '' @ quoted vhost @ '' already not exists.''), changes = []\<rparr>
                 else \<lparr>ret_name = name, result = None, comment = RStr (''Queue '' @ quoted name @ '' will be removed from vhost '' @ quoted vhost @ ''.''), changes = [(''new'', []), (''old'', name)]\<rparr>),
        [list_cmd e ''queues'' port user passwd vhost])"
  by (simp add: queue_absent_def Let_def case_prod_beta exists_calls finish_def
      split: sum.splits)

lemma binding_present_dry_run:
  "opts_test e \<Longrightarrow>
   binding_present e h name destination destination_type routing_key user passwd port vhost arguments
     = (case fst (binding_exists e h name destination destination_type routing_key ''localhost'' port user passwd vhost None) of
          Inl err \<Rightarrow> Inl err
        | Inr found \<Rightarrow>
            Inr (if found
                 then \<lparr>ret_name = name, result = Some True, comment = RStr (''Binding '' @ quoted name @ '' for vhost '' @ quoted vhost @ '' already exists.''), changes = []\<rparr>
                 else \<lparr>ret_name = name, result = None, comment = RStr (''Binding '' @ quoted name @ '' for vhost '' @ quoted vhost @ '' will be created.''), changes = [(''old'', []), (''new'', name)]\<rparr>),
        [list_cmd e ''bindings'' port user passwd vhost])"
  by (simp add: binding_present_def Let_def case_prod_beta exists_calls finish_def
      split: sum.splits)

lemma binding_absent_dry_run:
  "opts_test e \<Longrightarrow>
   binding_absent e h name destination routing_key destination_type user passwd port vhost
     = (case fst (binding_exists_with_props e h name destination destination_type routing_key ''localhost'' port user passwd vhost None) of
          Inl err \<Rightarrow> Inl err
        | Inr pk \<Rightarrow>
            Inr (if \<not> py_truthy pk
                 then \<lparr>ret_name = name, result = Some True, comment = RStr (''Binding '' @ quoted name @ '' for vhost '' @ quoted vhost @ '' not exists.''), changes = []\<rparr>
                 else \<lparr>ret_name = name, result = None, comment = RStr (''Exchange '' @ quoted name @ '' will be removed from vhost '' @ quoted vhost @ ''.''), changes = [(''new'', []), (''old'', name)]\<rparr>),
        [list_cmd e ''bindings'' port user passwd vhost])"
  by (simp add: binding_absent_def Let_def case_prod_beta exists_calls finish_def
      split: sum.splits)

section \<open>Idempotence of the state functions\<close>

text \<open>
  Claim C1. For each kind of entity (exchange, queue, binding): when the existence check
  reports that the entity exists, \<^verbatim>\<open>present\<close> returns the record with result true, an
  empty changes dict and the comment ending in \<^verbatim>\<open>already exists.\<close>, and the only call
  it has issued is the listing call of the check, which is neither a declare nor a
  delete.
\<close>

theorem present_on_existing_entity_is_noop:
  "(fst (exchange_exists e h name ''localhost'' port user passwd vhost None) = Inr True \<longrightarrow>
      exchange_present e h name user passwd xtype durable internal auto_delete port vhost arguments
       = (Inr \<lparr>ret_name = name, result = Some True, comment = RStr (''Exchange '' @ quoted name @ '' for vhost '' @ quoted vhost @ '' already exists.''), changes = []\<rparr>,
          [list_cmd e ''exchanges'' port user passwd vhost]))
   \<and> (fst (queue_exists e h name ''localhost'' port user passwd vhost None) = Inr True \<longrightarrow>
      queue_present e h name user passwd durable auto_delete port vhost arguments
       = (Inr \<lparr>ret_name = name, result = Some True, comment = RStr (''Queue '' @ quoted name @ '' for vhost '' @ quoted vhost @ '' already exists.''), changes = []\<rparr>,
          [list_cmd e ''queues'' port user passwd vhost]))
   \<and> (fst (binding_exists e h name destination destination_type routing_key ''localhost'' port user passwd vhost None) = Inr True \<longrightarrow>
      binding_present e h name destination destination_type routing_key user passwd port vhost arguments
       = (Inr \<lparr>ret_name = name, result = Some True, comment = RStr (''Binding '' @ quoted name @ '' for vhost '' @ quoted vhost @ '' already exists.''), changes = []\<rparr>,
          [list_cmd e ''bindings'' port user passwd vhost]))
   \<and> \<not> is_mutating (list_cmd e ''exchanges'' port user passwd vhost)
   \<and> \<not> is_mutating (list_cmd e ''queues'' port user passwd vhost)
   \<and> \<not> is_mutating (list_cmd e ''bindings'' port user passwd vhost)"
  by (simp add: exchange_present_noop queue_present_noop binding_present_noop
      list_cmd_not_mutating)

theorem present_on_existing_entity_is_noop_witness:
  "fst (exchange_exists (sample_env False ''unused'') [] ''orders'' ''localhost'' 15672 ''guest'' ''guest'' ''/'' None) = Inr True
   \<and> exchange_present (sample_env False ''unused'') [] ''orders'' ''guest'' ''guest'' ''fanout'' True False False 15672 ''/'' []
       = (Inr \<lparr>ret_name = ''orders'', result = Some True, comment = RStr (''Exchange '' @ quoted ''orders'' @ '' for vhost '' @ quoted ''/'' @ '' already exists.''), changes = []\<rparr>,
          [list_cmd (sample_env False ''unused'') ''exchanges'' 15672 ''guest'' ''guest'' ''/''])
   \<and> fst (queue_exists (sample_env False ''unused'') [] ''orders'' ''localhost'' 15672 ''guest'' ''guest'' ''/'' None) = Inr True
   \<and> queue_present (sample_env False ''unused'') [] ''orders'' ''guest'' ''guest'' True False 15672 ''/'' []
       = (Inr \<lparr>ret_name = ''orders'', result = Some True, comment = RStr (''Queue '' @ quoted ''orders'' @ '' for vhost '' @ quoted ''/'' @ '' already exists.''), changes = []\<rparr>,
          [list_cmd (sample_env False ''unused'') ''queues'' 15672 ''guest'' ''guest'' ''/''])
   \<and> fst (binding_exists (sample_env False ''unused'') [] ''orders'' ''orders'' ''queue'' ''new'' ''localhost'' 15672 ''guest'' ''guest'' ''/'' None) = Inr True
   \<and> binding_present (sample_env False ''unused'') [] ''orders'' ''orders'' ''queue'' ''new'' ''guest'' ''guest'' 15672 ''/'' []
       = (Inr \<lparr>ret_name = ''orders'', result = Some True, comment = RStr (''Binding '' @ quoted ''orders'' @ '' for vhost '' @ quoted ''/'' @ '' already exists.''), changes = []\<rparr>,
          [list_cmd (sample_env False ''unused'') ''bindings'' 15672 ''guest'' ''guest'' ''/''])
   \<and> \<not> is_mutating (list_cmd (sample_env False ''unused'') ''exchanges'' 15672 ''guest'' ''guest'' ''/'')
   \<and> \<not> is_mutating (list_cmd (sample_env False ''unused'') ''queues'' 15672 ''guest'' ''guest'' ''/'')
   \<and> \<not> is_mutating (list_cmd (sample_env False ''unused'') ''bindings'' 15672 ''guest'' ''guest'' ''/'')"
proof -
  have h0: "fst (exchange_exists (sample_env False ''unused'') [] ''orders'' ''localhost'' 15672 ''guest'' ''guest'' ''/'' None) = Inr True"
    by (simp add: client_defs sample_defs)
  have h1: "fst (queue_exists (sample_env False ''unused'') [] ''orders'' ''localhost'' 15672 ''guest'' ''guest'' ''/'' None) = Inr True"
    by (simp add: client_defs sample_defs)
  have h2: "fst (binding_exists (sample_env False ''unused'') [] ''orders'' ''orders'' ''queue'' ''new'' ''localhost'' 15672 ''guest'' ''guest'' ''/'' None) = Inr True"
    by (simp add: client_defs sample_defs)
  note t = present_on_existing_entity_is_noop
    [where e = "(sample_env False ''unused'')" and h = "[]" and name = "''orders''" and user = "''guest''" and passwd = "''guest''" and xtype = "''fanout''" and durable = "True" and internal = "False" and auto_delete = "False" and port = "15672" and vhost = "''/''" and arguments = "[]" and destination = "''orders''" and destination_type = "''queue''" and routing_key = "''new''"]
  from t h0 h1 h2 show ?thesis by blast
qed

text \<open>
  Claim C2. For each kind of entity: when the existence check reports that the entity is
  not there (for a binding: the looked-up properties key is \<^verbatim>\<open>None\<close> or any other
  false value), \<^verbatim>\<open>absent\<close> returns the record with result true, an empty changes dict
  and the comment ending in \<^verbatim>\<open>already not exists.\<close> (exchange, queue) or
  \<^verbatim>\<open>not exists.\<close> (binding), and the only call it has issued is the listing call.
\<close>

theorem absent_on_missing_entity_is_noop:
  "(fst (exchange_exists e h name ''localhost'' port user passwd vhost None) = Inr False \<longrightarrow>
      exchange_absent e h name user passwd port vhost
       = (Inr \<lparr>ret_name = name, result = Some True, comment = RStr (''Exchange '' @ quoted name @ '' for vhost '' @ quoted vhost @ '' already not exists.''), changes = []\<rparr>,
          [list_cmd e ''exchanges'' port user passwd vhost]))
   \<and> (fst (queue_exists e h name ''localhost'' port user passwd vhost None) = Inr False \<longrightarrow>
      queue_absent e h name user passwd port vhost
       = (Inr \<lparr>ret_name = name, result = Some True, comment = RStr (''Queue '' @ quoted name @ '' for vhost '' @ quoted vhost @ '' already not exists.''), changes = []\<rparr>,
          [list_cmd e ''queues'' port user passwd vhost]))
   \<and> (fst (binding_exists_with_props e h name destination destination_type routing_key ''localhost'' port user passwd vhost None) = Inr pk \<and> \<not> py_truthy pk \<longrightarrow>
      binding_absent e h name destination routing_key destination_type user passwd port vhost
       = (Inr \<lparr>ret_name = name, result = Some True, comment = RStr (''Binding '' @ quoted name @ '' for vhost '' @ quoted vhost @ '' not exists.''), changes = []\<rparr>,
          [list_cmd e ''bindings'' port user passwd vhost]))
   \<and> \<not> is_mutating (list_cmd e ''exchanges'' port user passwd vhost)
   \<and> \<not> is_mutating (list_cmd e ''queues'' port user passwd vhost)
   \<and> \<not> is_mutating (list_cmd e ''bindings'' port user passwd vhost)"
  by (simp add: exchange_absent_noop queue_absent_noop binding_absent_noop
      list_cmd_not_mutating)

theorem absent_on_missing_entity_is_noop_witness:
  "fst (exchange_exists (sample_env False ''unused'') [] ''audit'' ''localhost'' 15672 ''guest'' ''guest'' ''/'' None) = Inr False
   \<and> exchange_absent (sample_env False ''unused'') [] ''audit'' ''guest'' ''guest'' 15672 ''/''
       = (Inr \<lparr>ret_name = ''audit'', result = Some True, comment = RStr (''Exchange '' @ quoted ''audit'' @ '' for vhost '' @ quoted ''/'' @ '' already not exists.''), changes = []\<rparr>,
          [list_cmd (sample_env False ''unused'') ''exchanges'' 15672 ''guest'' ''guest'' ''/''])
   \<and> fst (queue_exists (sample_env False ''unused'') [] ''audit'' ''localhost'' 15672 ''guest'' ''guest'' ''/'' None) = Inr False
   \<and> queue_absent (sample_env False ''unused'') [] ''audit'' ''guest'' ''guest'' 15672 ''/''
       = (Inr \<lparr>ret_name = ''audit'', result = Some True, comment = RStr (''Queue '' @ quoted ''audit'' @ '' for vhost '' @ quoted ''/'' @ '' already not exists.''), changes = []\<rparr>,
          [list_cmd (sample_env False ''unused'') ''queues'' 15672 ''guest'' ''guest'' ''/''])
   \<and> fst (binding_exists_with_props (sample_env False ''unused'') [] ''audit'' ''orders'' ''queue'' ''new'' ''localhost'' 15672 ''guest'' ''guest'' ''/'' None) = Inr JNull \<and> \<not> py_truthy JNull
   \<and> binding_absent (sample_env False ''unused'') [] ''audit'' ''orders'' ''new'' ''queue'' ''guest'' ''guest'' 15672 ''/''
       = (Inr \<lparr>ret_name = ''audit'', result = Some True, comment = RStr (''Binding '' @ quoted ''audit'' @ '' for vhost '' @ quoted ''/'' @ '' not exists.''), changes = []\<rparr>,
          [list_cmd (sample_env False ''unused'') ''bindings'' 15672 ''guest'' ''guest'' ''/''])
   \<and> \<not> is_mutating (list_cmd (sample_env False ''unused'') ''exchanges'' 15672 ''guest'' ''guest'' ''/'')
   \<and> \<not> is_mutating (list_cmd (sample_env False ''unused'') ''queues'' 15672 ''guest'' ''guest'' ''/'')
   \<and> \<not> is_mutating (list_cmd (sample_env False ''unused'') ''bindings'' 15672 ''guest'' ''guest'' ''/'')"
proof -
  have h0: "fst (exchange_exists (sample_env False ''unused'') [] ''audit'' ''localhost'' 15672 ''guest'' ''guest'' ''/'' None) = Inr False"
    by (simp add: client_defs sample_defs)
  have h1: "fst (queue_exists (sample_env False ''unused'') [] ''audit'' ''localhost'' 15672 ''guest'' ''guest'' ''/'' None) = Inr False"
    by (simp add: client_defs sample_defs)
  have h2: "fst (binding_exists_with_props (sample_env False ''unused'') [] ''audit'' ''orders'' ''queue'' ''new'' ''localhost'' 15672 ''guest'' ''guest'' ''/'' None) = Inr JNull \<and> \<not> py_truthy JNull"
    by (simp add: client_defs sample_defs)
  note t = absent_on_missing_entity_is_noop
    [where e = "(sample_env False ''unused'')" and h = "[]" and name = "''audit''" and user = "''guest''" and passwd = "''guest''" and port = "15672" and vhost = "''/''" and destination = "''orders''" and destination_type = "''queue''" and routing_key = "''new''" and pk = JNull]
  from t h0 h1 h2 show ?thesis by blast
qed

text \<open>
  Claim C9. The binding \<^verbatim>\<open>absent\<close> state tests the looked-up properties key for
  falsiness: when the lookup returns the empty string (a listed binding matched and its
  properties key is empty), \<^verbatim>\<open>absent\<close> reports \<^verbatim>\<open>not exists.\<close> with result true and
  empty changes, and issues only the listing call, so no delete.
\<close>

theorem binding_absent_empty_properties_key:
  "fst (binding_exists_with_props e h name destination destination_type routing_key ''localhost'' port user passwd vhost None) = Inr (JStr []) \<Longrightarrow>
   binding_absent e h name destination routing_key destination_type user passwd port vhost
       = (Inr \<lparr>ret_name = name, result = Some True, comment = RStr (''Binding '' @ quoted name @ '' for vhost '' @ quoted vhost @ '' not exists.''), changes = []\<rparr>,
          [list_cmd e ''bindings'' port user passwd vhost])
   \<and> \<not> is_delete (list_cmd e ''bindings'' port user passwd vhost)"
  by (simp add: binding_absent_noop list_cmd_not_mutating)

theorem binding_absent_empty_properties_key_witness:
  "fst (binding_exists (sample_env False ''unused'') [] ''orders'' ''audit'' ''queue'' [] ''localhost'' 15672 ''guest'' ''guest'' ''/'' None) = Inr True
   \<and> fst (binding_exists_with_props (sample_env False ''unused'') [] ''orders'' ''audit'' ''queue'' [] ''localhost'' 15672 ''guest'' ''guest'' ''/'' None) = Inr (JStr [])
   \<and> binding_absent (sample_env False ''unused'') [] ''orders'' ''audit'' [] ''queue'' ''guest'' ''guest'' 15672 ''/''
       = (Inr \<lparr>ret_name = ''orders'', result = Some True, comment = RStr (''Binding '' @ quoted ''orders'' @ '' for vhost '' @ quoted ''/'' @ '' not exists.''), changes = []\<rparr>,
          [list_cmd (sample_env False ''unused'') ''bindings'' 15672 ''guest'' ''guest'' ''/''])
   \<and> \<not> is_delete (list_cmd (sample_env False ''unused'') ''bindings'' 15672 ''guest'' ''guest'' ''/'')"
proof -
  have m: "fst (binding_exists (sample_env False ''unused'') [] ''orders'' ''audit'' ''queue'' [] ''localhost'' 15672 ''guest'' ''guest'' ''/'' None) = Inr True"
    by (simp add: client_defs sample_defs)
  have h: "fst (binding_exists_with_props (sample_env False ''unused'') [] ''orders'' ''audit'' ''queue'' [] ''localhost'' 15672 ''guest'' ''guest'' ''/'' None) = Inr (JStr [])"
    by (simp add: client_defs sample_defs)
  note t = binding_absent_empty_properties_key
    [where e = "(sample_env False ''unused'')" and h = "[]" and name = "''orders''" and user = "''guest''" and passwd = "''guest''" and port = "15672" and vhost = "''/''" and destination = "''audit''" and destination_type = "''queue''" and routing_key = "[]", OF h]
  from m h t show ?thesis by blast
qed

section \<open>Dry run\<close>

text \<open>
  Claim C3. In test mode each of the six state functions issues the listing call of the
  existence check and nothing else, so never a declare or a delete. If the check raises,
  so does the function; otherwise it returns result \<^verbatim>\<open>None\<close> with the changes
  \<^verbatim>\<open>{old, new}\<close> when the check calls for a change (entity missing for \<^verbatim>\<open>present\<close>,
  there for \<^verbatim>\<open>absent\<close>), and result true with empty changes when it does not.
\<close>

theorem dry_run_only_checks:
  "opts_test e \<Longrightarrow>
   (exchange_present e h name user passwd xtype durable internal auto_delete port vhost arguments
       = (case fst (exchange_exists e h name ''localhost'' port user passwd vhost None) of
            Inl err \<Rightarrow> Inl err
          | Inr found \<Rightarrow>
              Inr (if found
                   then \<lparr>ret_name = name, result = Some True, comment = RStr (''Exchange '' @ quoted name @ '' for vhost '' @ quoted vhost @ '' already exists.''), changes = []\<rparr>
                   else \<lparr>ret_name = name, result = None, comment = RStr (''Exchange '' @ quoted name @ '' for vhost '' @ quoted vhost @ '' will be created.''), changes = [(''old'', []), (''new'', name)]\<rparr>),
          [list_cmd e ''exchanges'' port user passwd vhost])
   \<and> exchange_absent e h name user passwd port vhost
       = (case fst (exchange_exists e h name ''localhost'' port user passwd vhost None) of
            Inl err \<Rightarrow> Inl err
          | Inr found \<Rightarrow>
              Inr (if \<not> found
                   then \<lparr>ret_name = name, result = Some True, comment = RStr (''Exchange '' @ quoted name @ '' for vhost '' @ quoted vhost @ '' already not exists.''), changes = []\<rparr>
                   else \<lparr>ret_name = name, result = None, comment = RStr (''Exchange '' @ quoted name @ '' will be removed from vhost '' @ quoted vhost @ ''.''), changes = [(''new'', []), (''old'', name)]\<rparr>),
          [list_cmd e ''exchanges'' port user passwd vhost])
   \<and> queue_present e h name user passwd durable auto_delete port vhost arguments
       = (case fst (queue_exists e h name ''localhost'' port user passwd vhost None) of
            Inl err \<Rightarrow> Inl err
          | Inr found \<Rightarrow>
              Inr (if found
                   then \<lparr>ret_name = name, result = Some True, comment = RStr (''Queue '' @ quoted name @ '' for vhost '' @ quoted vhost @ '' already exists.''), changes = []\<rparr>
                   else \<lparr>ret_name = name, result = None, comment = RStr (''Queue '' @ quoted name @ '' for vhost '' @ quoted vhost @ '' will be created.''), changes = [(''old'', []), (''new'', name)]\<rparr>),
          [list_cmd e ''queues'' port user passwd vhost])
   \<and> queue_absent e h name user passwd port vhost
       = (case fst (queue_exists e h name ''localhost'' port user passwd vhost None) of
            Inl err \<Rightarrow> Inl err
          | Inr found \<Rightarrow>
              Inr (if \<not> found
                   then \<lparr>ret_name = name, result = Some True, comment = RStr (''Queue '' @ quoted name @ '' for vhost '' @ quoted vhost @ '' already not exists.''), changes = []\<rparr>
                   else \<lparr>ret_name = name, result = None, comment = RStr (''Queue '' @ quoted name @ '' will be removed from vhost '' @ quoted vhost @ ''.''), changes = [(''new'', []), (''old'', name)]\<rparr>),
          [list_cmd e ''queues'' port user passwd vhost])
   \<and> binding_present e h name destination destination_type routing_key user passwd port vhost arguments
       = (case fst (binding_exists e h name destination destination_type routing_key ''localhost'' port user passwd vhost None) of
            Inl err \<Rightarrow> Inl err
          | Inr found \<Rightarrow>
              Inr (if found
                   then \<lparr>ret_name = name, result = Some True, comment = RStr (''Binding '' @ quoted name @ '' for vhost '' @ quoted vhost @ '' already exists.''), changes = []\<rparr>
                   else \<lparr>ret_name = name, result = None, comment = RStr (''Binding '' @ quoted name @ '' for vhost '' @ quoted vhost @ '' will be created.''), changes = [(''old'', []), (''new'', name)]\<rparr>),
          [list_cmd e ''bindings'' port user passwd vhost])
   \<and> binding_absent e h name destination routing_key destination_type user passwd port vhost
       = (case fst (binding_exists_with_props e h name destination destination_type routing_key ''localhost'' port user passwd vhost None) of
            Inl err \<Rightarrow> Inl err
          | Inr pk \<Rightarrow>
              Inr (if \<not> py_truthy pk
                   then \<lparr>ret_name = name, result = Some True, comment = RStr (''Binding '' @ quoted name @ '' for vhost '' @ quoted vhost @ '' not exists.''), changes = []\<rparr>
                   else \<lparr>ret_name = name, result = None, comment = RStr (''Exchange '' @ quoted name @ '' will be removed from vhost '' @ quoted vhost @ ''.''), changes = [(''new'', []), (''old'', name)]\<rparr>),
          [list_cmd e ''bindings'' port user passwd vhost])
   \<and> \<not> is_mutating (list_cmd e ''exchanges'' port user passwd vhost)
   \<and> \<not> is_mutating (list_cmd e ''queues'' port user passwd vhost)
   \<and> \<not> is_mutating (list_cmd e ''bindings'' port user passwd vhost))"
  by (simp add: exchange_present_dry_run exchange_absent_dry_run queue_present_dry_run
      queue_absent_dry_run binding_present_dry_run binding_absent_dry_run
      list_cmd_not_mutating)

theorem dry_run_only_checks_witness:
  "opts_test (sample_env True ''unused'')
   \<and> exchange_present (sample_env True ''unused'') [] ''orders'' ''guest'' ''guest'' ''fanout'' True False False 15672 ''/'' []
       = (Inr \<lparr>ret_name = ''orders'', result = Some True, comment = RStr (''Exchange '' @ quoted ''orders'' @ '' for vhost '' @ quoted ''/'' @ '' already exists.''), changes = []\<rparr>,
          [list_cmd (sample_env True ''unused'') ''exchanges'' 15672 ''guest'' ''guest'' ''/''])
   \<and> exchange_absent (sample_env True ''unused'') [] ''orders'' ''guest'' ''guest'' 15672 ''/''
       = (Inr \<lparr>ret_name = ''orders'', result = None, comment = RStr (''Exchange '' @ quoted ''orders'' @ '' will be removed from vhost '' @ quoted ''/'' @ ''.''), changes = [(''new'', []), (''old'', ''orders'')]\<rparr>,
          [list_cmd (sample_env True ''unused'') ''exchanges'' 15672 ''guest'' ''guest'' ''/''])
   \<and> queue_present (sample_env True ''unused'') [] ''orders'' ''guest'' ''guest'' True False 15672 ''/'' []
       = (Inr \<lparr>ret_name = ''orders'', result = Some True, comment = RStr (''Queue '' @ quoted ''orders'' @ '' for vhost '' @ quoted ''/'' @ '' already exists.''), changes = []\<rparr>,
          [list_cmd (sample_env True ''unused'') ''queues'' 15672 ''guest'' ''guest'' ''/''])
   \<and> queue_absent (sample_env True ''unused'') [] ''orders'' ''guest'' ''guest'' 15672 ''/''
       = (Inr \<lparr>ret_name = ''orders'', result = None, comment = RStr (''Queue '' @ quoted ''orders'' @ '' will be removed from vhost '' @ quoted ''/'' @ ''.''), changes = [(''new'', []), (''old'', ''orders'')]\<rparr>,
          [list_cmd (sample_env True ''unused'') ''queues'' 15672 ''guest'' ''guest'' ''/''])
   \<and> binding_present (sample_env True ''unused'') [] ''orders'' ''orders'' ''queue'' ''new'' ''guest'' ''guest'' 15672 ''/'' []
       = (Inr \<lparr>ret_name = ''orders'', result = Some True, comment = RStr (''Binding '' @ quoted ''orders'' @ '' for vhost '' @ quoted ''/'' @ '' already exists.''), changes = []\<rparr>,
          [list_cmd (sample_env True ''unused'') ''bindings'' 15672 ''guest'' ''guest'' ''/''])
   \<and> binding_absent (sample_env True ''unused'') [] ''orders'' ''orders'' ''new'' ''queue'' ''guest'' ''guest'' 15672 ''/''
       = (Inr \<lparr>ret_name = ''orders'', result = None, comment = RStr (''Exchange '' @ quoted ''orders'' @ '' will be removed from vhost '' @ quoted ''/'' @ ''.''), changes = [(''new'', []), (''old'', ''orders'')]\<rparr>,
          [list_cmd (sample_env True ''unused'') ''bindings'' 15672 ''guest'' ''guest'' ''/''])
   \<and> exchange_present (sample_env True ''unused'') [] ''audit'' ''guest'' ''guest'' ''fanout'' True False False 15672 ''/'' []
       = (Inr \<lparr>ret_name = ''audit'', result = None, comment = RStr (''Exchange '' @ quoted ''audit'' @ '' for vhost '' @ quoted ''/'' @ '' will be created.''), changes = [(''old'', []), (''new'', ''audit'')]\<rparr>,
          [list_cmd (sample_env True ''unused'') ''exchanges'' 15672 ''guest'' ''guest'' ''/''])
   \<and> exchange_absent (sample_env True ''unused'') [] ''audit'' ''guest'' ''guest'' 15672 ''/''
       = (Inr \<lparr>ret_name = ''audit'', result = Some True, comment = RStr (''Exchange '' @ quoted ''audit'' @ '' for vhost '' @ quoted ''/'' @ '' already not exists.''), changes = []\<rparr>,
          [list_cmd (sample_env True ''unused'') ''exchanges'' 15672 ''guest'' ''guest'' ''/''])
   \<and> queue_present (sample_env True ''unused'') [] ''audit'' ''guest'' ''guest'' True False 15672 ''/'' []
       = (Inr \<lparr>ret_name = ''audit'', result = None, comment = RStr (''Queue '' @ quoted ''audit'' @ '' for vhost '' @ quoted ''/'' @ '' will be created.''), changes = [(''old'', []), (''new'', ''audit'')]\<rparr>,
          [list_cmd (sample_env True ''unused'') ''queues'' 15672 ''guest'' ''guest'' ''/''])
   \<and> queue_absent (sample_env True ''unused'') [] ''audit'' ''guest'' ''guest'' 15672 ''/''
       = (Inr \<lparr>ret_name = ''audit'', result = Some True, comment = RStr (''Queue '' @ quoted ''audit'' @ '' for vhost '' @ quoted ''/'' @ '' already not exists.''), changes = []\<rparr>,
          [list_cmd (sample_env True ''unused'') ''queues'' 15672 ''guest'' ''guest'' ''/''])
   \<and> binding_present (sample_env True ''unused'') [] ''audit'' ''orders'' ''queue'' ''new'' ''guest'' ''guest'' 15672 ''/'' []
       = (Inr \<lparr>ret_name = ''audit'', result = None, comment = RStr (''Binding '' @ quoted ''audit'' @ '' for vhost '' @ quoted ''/'' @ '' will be created.''), changes = [(''old'', []), (''new'', ''audit'')]\<rparr>,
          [list_cmd (sample_env True ''unused'') ''bindings'' 15672 ''guest'' ''guest'' ''/''])
   \<and> binding_absent (sample_env True ''unused'') [] ''audit'' ''orders'' ''new'' ''queue'' ''guest'' ''guest'' 15672 ''/''
       = (Inr \<lparr>ret_name = ''audit'', result = Some True, comment = RStr (''Binding '' @ quoted ''audit'' @ '' for vhost '' @ quoted ''/'' @ '' not exists.''), changes = []\<rparr>,
          [list_cmd (sample_env True ''unused'') ''bindings'' 15672 ''guest'' ''guest'' ''/''])"
proof -
  have h: "opts_test (sample_env True ''unused'')" by (simp add: sample_env_def)
  note t1 = dry_run_only_checks
    [where e = "(sample_env True ''unused'')" and h = "[]" and name = "''orders''" and user = "''guest''" and passwd = "''guest''" and xtype = "''fanout''" and durable = "True" and internal = "False" and auto_delete = "False" and port = "15672" and vhost = "''/''" and arguments = "[]" and destination = "''orders''" and destination_type = "''queue''" and routing_key = "''new''", OF h]
  note t2 = dry_run_only_checks
    [where e = "(sample_env True ''unused'')" and h = "[]" and name = "''audit''" and user = "''guest''" and passwd = "''guest''" and xtype = "''fanout''" and durable = "True" and internal = "False" and auto_delete = "False" and port = "15672" and vhost = "''/''" and arguments = "[]" and destination = "''orders''" and destination_type = "''queue''" and routing_key = "''new''", OF h]
  show ?thesis using h t1 t2 by (simp add: client_defs sample_defs)
qed

section \<open>How many mutating calls, and to which host\<close>

lemmas add_exchange_counts = declare_call_counts [OF add_exchange_calls]
lemmas add_queue_counts = declare_call_counts [OF add_queue_calls]
lemmas add_binding_counts = declare_call_counts [OF add_binding_calls]
lemmas delete_exchange_counts = delete_call_counts [OF delete_exchange_calls]
lemmas delete_queue_counts = delete_call_counts [OF delete_queue_calls]
lemmas delete_binding_counts = delete_call_counts [OF delete_binding_calls]


lemma exchange_present_count:
  "length (filter is_mutating (snd (exchange_present e h name user passwd xtype durable internal auto_delete port vhost arguments)))
     = (if fst (exchange_exists e h name ''localhost'' port user passwd vhost None) = Inr False
           \<and> \<not> opts_test e then 1 else 0)"
  "filter is_delete (snd (exchange_present e h name user passwd xtype durable internal auto_delete port vhost arguments)) = []"
  by (simp_all add: exchange_present_calls list_cmd_not_mutating add_exchange_counts
      split: sum.splits)

lemma exchange_present_hosts:
  "\<forall>c\<in>set (snd (exchange_present e h name user passwd xtype durable internal auto_delete port vhost arguments)).
      host_of c = Some (AStr ''localhost'')"
  by (auto simp: exchange_present_calls list_cmd_host split: sum.splits if_splits
      dest: add_exchange_counts(3))

lemma exchange_absent_count:
  "length (filter is_mutating (snd (exchange_absent e h name user passwd port vhost)))
     = (if fst (exchange_exists e h name ''localhost'' port user passwd vhost None) = Inr True
           \<and> \<not> opts_test e then 1 else 0)"
  "filter is_add (snd (exchange_absent e h name user passwd port vhost)) = []"
  by (simp_all add: exchange_absent_calls list_cmd_not_mutating delete_exchange_counts
      split: sum.splits)

lemma exchange_absent_hosts:
  "\<forall>c\<in>set (snd (exchange_absent e h name user passwd port vhost)).
      host_of c = Some (AStr ''localhost'')"
  by (auto simp: exchange_absent_calls list_cmd_host split: sum.splits if_splits
      dest: delete_exchange_counts(3))

lemma queue_present_count:
  "length (filter is_mutating (snd (queue_present e h name user passwd durable auto_delete port vhost arguments)))
     = (if fst (queue_exists e h name ''localhost'' port user passwd vhost None) = Inr False
           \<and> \<not> opts_test e then 1 else 0)"
  "filter is_delete (snd (queue_present e h name user passwd durable auto_delete port vhost arguments)) = []"
  by (simp_all add: queue_present_calls list_cmd_not_mutating add_queue_counts
      split: sum.splits)

lemma queue_present_hosts:
  "\<forall>c\<in>set (snd (queue_present e h name user passwd durable auto_delete port vhost arguments)).
      host_of c = Some (AStr ''localhost'')"
  by (auto simp: queue_present_calls list_cmd_host split: sum.splits if_splits
      dest: add_queue_counts(3))

lemma queue_absent_count:
  "length (filter is_mutating (snd (queue_absent e h name user passwd port vhost)))
     = (if fst (queue_exists e h name ''localhost'' port user passwd vhost None) = Inr True
           \<and> \<not> opts_test e then 1 else 0)"
  "filter is_add (snd (queue_absent e h name user passwd port vhost)) = []"
  by (simp_all add: queue_absent_calls list_cmd_not_mutating delete_queue_counts
      split: sum.splits)

lemma queue_absent_hosts:
  "\<forall>c\<in>set (snd (queue_absent e h name user passwd port vhost)).
      host_of c = Some (AStr ''localhost'')"
  by (auto simp: queue_absent_calls list_cmd_host split: sum.splits if_splits
      dest: delete_queue_counts(3))

lemma binding_present_count:
  "length (filter is_mutating (snd (binding_present e h name destination destination_type routing_key user passwd port vhost arguments)))
     = (if fst (binding_exists e h name destination destination_type routing_key ''localhost'' port user passwd vhost None) = Inr False
           \<and> \<not> opts_test e then 1 else 0)"
  "filter is_delete (snd (binding_present e h name destination destination_type routing_key user passwd port vhost arguments)) = []"
  by (simp_all add: binding_present_calls list_cmd_not_mutating add_binding_counts
      split: sum.splits)

lemma binding_present_hosts:
  "\<forall>c\<in>set (snd (binding_present e h name destination destination_type routing_key user passwd port vhost arguments)).
      host_of c = Some (AStr ''localhost'')"
  by (auto simp: binding_present_calls list_cmd_host split: sum.splits if_splits
      dest: add_binding_counts(3))

lemma binding_absent_count:
  "length (filter is_mutating (snd (binding_absent e h name destination routing_key destination_type user passwd port vhost)))
     = (case fst (binding_exists_with_props e h name destination destination_type routing_key ''localhost'' port user passwd vhost None) of
          Inl err \<Rightarrow> 0
        | Inr pk \<Rightarrow> if py_truthy pk \<and> \<not> opts_test e then 1 else 0)"
  "filter is_add (snd (binding_absent e h name destination routing_key destination_type user passwd port vhost)) = []"
  by (simp_all add: binding_absent_calls list_cmd_not_mutating delete_binding_counts
      split: sum.splits)

lemma binding_absent_hosts:
  "\<forall>c\<in>set (snd (binding_absent e h name destination routing_key destination_type user passwd port vhost)).
      host_of c = Some (AStr ''localhost'')"
  by (auto simp: binding_absent_calls list_cmd_host split: sum.splits if_splits
      dest: delete_binding_counts(3))

text \<open>
  Claim C8. Over one invocation of a state function at most one mutating client call is
  made: exactly one when the existence check calls for a change outside test mode, none
  otherwise (no-op, test mode, or a check that raised). \<^verbatim>\<open>present\<close> never issues a
  delete and \<^verbatim>\<open>absent\<close> never issues a declare, so no invocation does both: there is no
  update path.
\<close>

theorem at_most_one_mutating_call:
  "length (filter is_mutating (snd (exchange_present e h name user passwd xtype durable internal auto_delete port vhost arguments)))
       = (if fst (exchange_exists e h name ''localhost'' port user passwd vhost None) = Inr False
           \<and> \<not> opts_test e then 1 else 0)
   \<and> length (filter is_mutating (snd (exchange_present e h name user passwd xtype durable internal auto_delete port vhost arguments))) \<le> 1
   \<and> filter is_delete (snd (exchange_present e h name user passwd xtype durable internal auto_delete port vhost arguments)) = []
   \<and> length (filter is_mutating (snd (exchange_absent e h name user passwd port vhost)))
       = (if fst (exchange_exists e h name ''localhost'' port user passwd vhost None) = Inr True
           \<and> \<not> opts_test e then 1 else 0)
   \<and> length (filter is_mutating (snd (exchange_absent e h name user passwd port vhost))) \<le> 1
   \<and> filter is_add (snd (exchange_absent e h name user passwd port vhost)) = []
   \<and> length (filter is_mutating (snd (queue_present e h name user passwd durable auto_delete port vhost arguments)))
       = (if fst (queue_exists e h name ''localhost'' port user passwd vhost None) = Inr False
           \<and> \<not> opts_test e then 1 else 0)
   \<and> length (filter is_mutating (snd (queue_present e h name user passwd durable auto_delete port vhost arguments))) \<le> 1
   \<and> filter is_delete (snd (queue_present e h name user passwd durable auto_delete port vhost arguments)) = []
   \<and> length (filter is_mutating (snd (queue_absent e h name user passwd port vhost)))
       = (if fst (queue_exists e h name ''localhost'' port user passwd vhost None) = Inr True
           \<and> \<not> opts_test e then 1 else 0)
   \<and> length (filter is_mutating (snd (queue_absent e h name user passwd port vhost))) \<le> 1
   \<and> filter is_add (snd (queue_absent e h name user passwd port vhost)) = []
   \<and> length (filter is_mutating (snd (binding_present e h name destination destination_type routing_key user passwd port vhost arguments)))
       = (if fst (binding_exists e h name destination destination_type routing_key ''localhost'' port user passwd vhost None) = Inr False
           \<and> \<not> opts_test e then 1 else 0)
   \<and> length (filter is_mutating (snd (binding_present e h name destination destination_type routing_key user passwd port vhost arguments))) \<le> 1
   \<and> filter is_delete (snd (binding_present e h name destination destination_type routing_key user passwd port vhost arguments)) = []
   \<and> length (filter is_mutating (snd (binding_absent e h name destination routing_key destination_type user passwd port vhost)))
       = (case fst (binding_exists_with_props e h name destination destination_type routing_key ''localhost'' port user passwd vhost None) of
          Inl err \<Rightarrow> 0
        | Inr pk \<Rightarrow> if py_truthy pk \<and> \<not> opts_test e then 1 else 0)
   \<and> length (filter is_mutating (snd (binding_absent e h name destination routing_key destination_type user passwd port vhost))) \<le> 1
   \<and> filter is_add (snd (binding_absent e h name destination routing_key destination_type user passwd port vhost)) = []"
  by (simp add: exchange_present_count
      exchange_absent_count
      queue_present_count
      queue_absent_count
      binding_present_count
      binding_absent_count
      split: sum.splits)

theorem at_most_one_mutating_call_witness:
  "length (filter is_mutating (snd (exchange_present (sample_env False ''exchange declared'') [] ''audit'' ''guest'' ''guest'' ''fanout'' True False False 15672 ''/'' []))) = 1
   \<and> length (filter is_mutating (snd (queue_present (sample_env False ''exchange declared'') [] ''audit'' ''guest'' ''guest'' True False 15672 ''/'' []))) = 1
   \<and> length (filter is_mutating (snd (binding_present (sample_env False ''exchange declared'') [] ''audit'' ''orders'' ''queue'' ''new'' ''guest'' ''guest'' 15672 ''/'' []))) = 1
   \<and> length (filter is_mutating (snd (exchange_present (sample_env False ''exchange declared'') [] ''orders'' ''guest'' ''guest'' ''fanout'' True False False 15672 ''/'' []))) = 0
   \<and> length (filter is_mutating (snd (queue_present (sample_env False ''exchange declared'') [] ''orders'' ''guest'' ''guest'' True False 15672 ''/'' []))) = 0
   \<and> length (filter is_mutating (snd (binding_present (sample_env False ''exchange declared'') [] ''orders'' ''orders'' ''queue'' ''new'' ''guest'' ''guest'' 15672 ''/'' []))) = 0
   \<and> length (filter is_mutating (snd (exchange_absent (sample_env False ''exchange deleted'') [] ''orders'' ''guest'' ''guest'' 15672 ''/''))) = 1
   \<and> length (filter is_mutating (snd (queue_absent (sample_env False ''exchange deleted'') [] ''orders'' ''guest'' ''guest'' 15672 ''/''))) = 1
   \<and> length (filter is_mutating (snd (binding_absent (sample_env False ''exchange deleted'') [] ''orders'' ''orders'' ''new'' ''queue'' ''guest'' ''guest'' 15672 ''/''))) = 1
   \<and> length (filter is_mutating (snd (exchange_present (sample_env True ''unused'') [] ''audit'' ''guest'' ''guest'' ''fanout'' True False False 15672 ''/'' []))) = 0
   \<and> length (filter is_mutating (snd (queue_present (sample_env True ''unused'') [] ''audit'' ''guest'' ''guest'' True False 15672 ''/'' []))) = 0
   \<and> length (filter is_mutating (snd (binding_present (sample_env True ''unused'') [] ''audit'' ''orders'' ''queue'' ''new'' ''guest'' ''guest'' 15672 ''/'' []))) = 0"
proof -
  note t0 = at_most_one_mutating_call
    [where e = "(sample_env False ''exchange declared'')" and h = "[]" and name = "''audit''" and user = "''guest''" and passwd = "''guest''" and xtype = "''fanout''" and durable = "True" and internal = "False" and auto_delete = "False" and port = "15672" and vhost = "''/''" and arguments = "[]" and destination = "''orders''" and destination_type = "''queue''" and routing_key = "''new''"]
  note t1 = at_most_one_mutating_call
    [where e = "(sample_env False ''exchange declared'')" and h = "[]" and name = "''orders''" and user = "''guest''" and passwd = "''guest''" and xtype = "''fanout''" and durable = "True" and internal = "False" and auto_delete = "False" and port = "15672" and vhost = "''/''" and arguments = "[]" and destination = "''orders''" and destination_type = "''queue''" and routing_key = "''new''"]
  note t2 = at_most_one_mutating_call
    [where e = "(sample_env False ''exchange deleted'')" and h = "[]" and name = "''orders''" and user = "''guest''" and passwd = "''guest''" and xtype = "''fanout''" and durable = "True" and internal = "False" and auto_delete = "False" and port = "15672" and vhost = "''/''" and arguments = "[]" and destination = "''orders''" and destination_type = "''queue''" and routing_key = "''new''"]
  note t3 = at_most_one_mutating_call
    [where e = "(sample_env True ''unused'')" and h = "[]" and name = "''audit''" and user = "''guest''" and passwd = "''guest''" and xtype = "''fanout''" and durable = "True" and internal = "False" and auto_delete = "False" and port = "15672" and vhost = "''/''" and arguments = "[]" and destination = "''orders''" and destination_type = "''queue''" and routing_key = "''new''"]
  show ?thesis using t0 t1 t2 t3 by (simp add: client_defs sample_defs)
qed

text \<open>
  Claim C10. The six state functions take no host parameter, and every call they issue
  (listing, declare, delete) names \<^verbatim>\<open>localhost\<close> after \<^verbatim>\<open>-H\<close>; the client functions
  themselves pass on whatever host they are given.
\<close>

theorem state_calls_name_localhost:
  "(\<forall>c\<in>set (snd (exchange_present e h name user passwd xtype durable internal auto_delete port vhost arguments)).
        host_of c = Some (AStr ''localhost''))
   \<and> (\<forall>c\<in>set (snd (exchange_absent e h name user passwd port vhost)).
        host_of c = Some (AStr ''localhost''))
   \<and> (\<forall>c\<in>set (snd (queue_present e h name user passwd durable auto_delete port vhost arguments)).
        host_of c = Some (AStr ''localhost''))
   \<and> (\<forall>c\<in>set (snd (queue_absent e h name user passwd port vhost)).
        host_of c = Some (AStr ''localhost''))
   \<and> (\<forall>c\<in>set (snd (binding_present e h name destination destination_type routing_key user passwd port vhost arguments)).
        host_of c = Some (AStr ''localhost''))
   \<and> (\<forall>c\<in>set (snd (binding_absent e h name destination routing_key destination_type user passwd port vhost)).
        host_of c = Some (AStr ''localhost''))
   \<and> map host_of (snd (exchange_exists e h name host port user passwd vhost runas_opt))
       = [Some (AStr host)]
   \<and> map host_of (snd (add_queue e h name host port user passwd vhost durable auto_delete
                       arguments runas_opt))
       = [Some (AStr host)]
   \<and> map host_of (snd (delete_binding e h name destination destination_type pk host port user
                       passwd vhost runas_opt))
       = [Some (AStr host)]"
proof -
  have a: "map host_of (snd (exchange_exists e h name host port user passwd vhost runas_opt))
       = [Some (AStr host)]"
    by (simp add: exchange_exists_def run_def Let_def host_of_def conn_def split: sum.splits)
  have b: "map host_of (snd (add_queue e h name host port user passwd vhost durable auto_delete
                       arguments runas_opt))
       = [Some (AStr host)]"
    using add_queue_calls [of e h name host port user passwd vhost durable auto_delete
        arguments runas_opt]
    by auto
  have c: "map host_of (snd (delete_binding e h name destination destination_type pk host port user
                       passwd vhost runas_opt))
       = [Some (AStr host)]"
    using delete_binding_calls [of e h name destination destination_type pk host port user
        passwd vhost runas_opt]
    by auto
  show ?thesis
    by (intro conjI a b c exchange_present_hosts exchange_absent_hosts queue_present_hosts queue_absent_hosts binding_present_hosts binding_absent_hosts)
qed

theorem state_calls_name_localhost_witness:
  "list_all (\<lambda>c. host_of c = Some (AStr ''localhost''))
      (snd (exchange_present (sample_env False ''done'') [] ''audit'' ''guest'' ''guest'' ''fanout'' True False False 15672 ''/'' []))
   \<and> list_all (\<lambda>c. host_of c = Some (AStr ''localhost''))
      (snd (exchange_absent (sample_env False ''done'') [] ''orders'' ''guest'' ''guest'' 15672 ''/''))
   \<and> list_all (\<lambda>c. host_of c = Some (AStr ''localhost''))
      (snd (queue_present (sample_env False ''done'') [] ''audit'' ''guest'' ''guest'' True False 15672 ''/'' []))
   \<and> list_all (\<lambda>c. host_of c = Some (AStr ''localhost''))
      (snd (queue_absent (sample_env False ''done'') [] ''orders'' ''guest'' ''guest'' 15672 ''/''))
   \<and> list_all (\<lambda>c. host_of c = Some (AStr ''localhost''))
      (snd (binding_present (sample_env False ''done'') [] ''audit'' ''orders'' ''queue'' ''new'' ''guest'' ''guest'' 15672 ''/'' []))
   \<and> list_all (\<lambda>c. host_of c = Some (AStr ''localhost''))
      (snd (binding_absent (sample_env False ''done'') [] ''orders'' ''orders'' ''new'' ''queue'' ''guest'' ''guest'' 15672 ''/''))
   \<and> length (snd (exchange_present (sample_env False ''done'') [] ''audit'' ''guest'' ''guest'' ''fanout'' True False False 15672 ''/'' [])) = 2
   \<and> length (snd (exchange_absent (sample_env False ''done'') [] ''orders'' ''guest'' ''guest'' 15672 ''/'')) = 2
   \<and> length (snd (queue_present (sample_env False ''done'') [] ''audit'' ''guest'' ''guest'' True False 15672 ''/'' [])) = 2
   \<and> length (snd (queue_absent (sample_env False ''done'') [] ''orders'' ''guest'' ''guest'' 15672 ''/'')) = 2
   \<and> length (snd (binding_present (sample_env False ''done'') [] ''audit'' ''orders'' ''queue'' ''new'' ''guest'' ''guest'' 15672 ''/'' [])) = 2
   \<and> length (snd (binding_absent (sample_env False ''done'') [] ''orders'' ''orders'' ''new'' ''queue'' ''guest'' ''guest'' 15672 ''/'')) = 2"
proof -
  note t1 = state_calls_name_localhost
    [where e = "(sample_env False ''done'')" and h = "[]" and name = "''audit''" and user = "''guest''" and passwd = "''guest''" and xtype = "''fanout''" and durable = "True" and internal = "False" and auto_delete = "False" and port = "15672" and vhost = "''/''" and arguments = "[]" and destination = "''orders''" and destination_type = "''queue''" and routing_key = "''new''" and host = "[]" and pk = JNull and runas_opt = None]
  note t2 = state_calls_name_localhost
    [where e = "(sample_env False ''done'')" and h = "[]" and name = "''orders''" and user = "''guest''" and passwd = "''guest''" and xtype = "''fanout''" and durable = "True" and internal = "False" and auto_delete = "False" and port = "15672" and vhost = "''/''" and arguments = "[]" and destination = "''orders''" and destination_type = "''queue''" and routing_key = "''new''" and host = "[]" and pk = JNull and runas_opt = None]
  have l: "length (snd (exchange_present (sample_env False ''done'') [] ''audit'' ''guest'' ''guest'' ''fanout'' True False False 15672 ''/'' [])) = 2
     \<and> length (snd (exchange_absent (sample_env False ''done'') [] ''orders'' ''guest'' ''guest'' 15672 ''/'')) = 2
     \<and> length (snd (queue_present (sample_env False ''done'') [] ''audit'' ''guest'' ''guest'' True False 15672 ''/'' [])) = 2
     \<and> length (snd (queue_absent (sample_env False ''done'') [] ''orders'' ''guest'' ''guest'' 15672 ''/'')) = 2
     \<and> length (snd (binding_present (sample_env False ''done'') [] ''audit'' ''orders'' ''queue'' ''new'' ''guest'' ''guest'' 15672 ''/'' [])) = 2
     \<and> length (snd (binding_absent (sample_env False ''done'') [] ''orders'' ''orders'' ''new'' ''queue'' ''guest'' ''guest'' 15672 ''/'')) = 2"
    by (simp add: state_defs client_defs sample_defs)
  have w: "list_all (\<lambda>c. host_of c = Some (AStr ''localhost''))
      (snd (exchange_present (sample_env False ''done'') [] ''audit'' ''guest'' ''guest'' ''fanout'' True False False 15672 ''/'' []))
     \<and> list_all (\<lambda>c. host_of c = Some (AStr ''localhost''))
      (snd (exchange_absent (sample_env False ''done'') [] ''orders'' ''guest'' ''guest'' 15672 ''/''))
     \<and> list_all (\<lambda>c. host_of c = Some (AStr ''localhost''))
      (snd (queue_present (sample_env False ''done'') [] ''audit'' ''guest'' ''guest'' True False 15672 ''/'' []))
     \<and> list_all (\<lambda>c. host_of c = Some (AStr ''localhost''))
      (snd (queue_absent (sample_env False ''done'') [] ''orders'' ''guest'' ''guest'' 15672 ''/''))
     \<and> list_all (\<lambda>c. host_of c = Some (AStr ''localhost''))
      (snd (binding_present (sample_env False ''done'') [] ''audit'' ''orders'' ''queue'' ''new'' ''guest'' ''guest'' 15672 ''/'' []))
     \<and> list_all (\<lambda>c. host_of c = Some (AStr ''localhost''))
      (snd (binding_absent (sample_env False ''done'') [] ''orders'' ''orders'' ''new'' ''queue'' ''guest'' ''guest'' 15672 ''/''))"
    using t1 t2 unfolding list_all_iff by blast
  from w l show ?thesis by blast
qed

section \<open>Binding identity\<close>

lemma binding_cond_record:
  "is_binding_record item \<Longrightarrow>
   binding_cond item n d dt rk v = Inr (same_binding n d dt rk v item)"
  by (cases item)
     (auto simp: is_binding_record_def binding_cond_def and_then_def field_is_def
        same_binding_def field_def split: option.splits bool.splits)

lemma binding_scan_records:
  "list_all is_binding_record items \<Longrightarrow>
   binding_scan n d dt rk v items = Inr (list_ex (same_binding n d dt rk v) items)"
  by (induction items) (simp_all add: binding_cond_record split: bool.splits)

lemma binding_props_scan_records:
  "list_all is_binding_record items \<Longrightarrow>
   binding_props_scan n d dt rk v items
     = (case find (same_binding n d dt rk v) items of
          None \<Rightarrow> Inr JNull
        | Some item \<Rightarrow> py_getitem item ''properties_key'')"
  by (induction items) (simp_all add: binding_cond_record split: bool.splits)

text \<open>
  Claim C6. When the bindings listing decodes to a list of binding records,
  \<^verbatim>\<open>binding_exists\<close> returns true exactly when some listed record matches on the five
  fields source, destination, destination_type, routing_key and vhost, and
  \<^verbatim>\<open>binding_exists_with_props\<close> returns the \<^verbatim>\<open>properties_key\<close> entry of the first
  record matching on the same five fields, or \<^verbatim>\<open>None\<close> when no record matches. The
  match does not read \<^verbatim>\<open>arguments\<close> or \<^verbatim>\<open>properties_key\<close>: changing them in a record
  leaves it the same binding.
\<close>

theorem binding_lookup_matches_five_fields:
  assumes "cmd_run e h (bindings_list_cmd e host port user passwd vhost runas_opt) = RStr s"
    and "json_loads e s = Some (JList items)"
    and "list_all is_binding_record items"
  shows "fst (binding_exists e h name destination destination_type routing_key host port user
                passwd vhost runas_opt)
           = Inr (list_ex (same_binding name destination destination_type routing_key vhost)
                    items)
         \<and> fst (binding_exists_with_props e h name destination destination_type routing_key
                  host port user passwd vhost runas_opt)
           = (case find (same_binding name destination destination_type routing_key vhost)
                     items of
                None \<Rightarrow> Inr JNull
              | Some item \<Rightarrow> py_getitem item ''properties_key'')
         \<and> same_binding name destination destination_type routing_key vhost
              (JObj ((''arguments'', a) # (''properties_key'', p) # kvs))
           = same_binding name destination destination_type routing_key vhost
              (JObj ((''arguments'', a') # (''properties_key'', p') # kvs))"
proof (intro conjI)
  show "fst (binding_exists e h name destination destination_type routing_key host port user
                passwd vhost runas_opt)
           = Inr (list_ex (same_binding name destination destination_type routing_key vhost)
                    items)"
    using assms
    by (simp add: binding_exists_def run_def Let_def loads_def bindings_list_cmd_def
        binding_scan_records)
  show "fst (binding_exists_with_props e h name destination destination_type routing_key
                  host port user passwd vhost runas_opt)
           = (case find (same_binding name destination destination_type routing_key vhost)
                     items of
                None \<Rightarrow> Inr JNull
              | Some item \<Rightarrow> py_getitem item ''properties_key'')"
    using assms
    by (simp add: binding_exists_with_props_def run_def Let_def loads_def
        bindings_list_cmd_def binding_props_scan_records)
  show "same_binding name destination destination_type routing_key vhost
              (JObj ((''arguments'', a) # (''properties_key'', p) # kvs))
           = same_binding name destination destination_type routing_key vhost
              (JObj ((''arguments'', a') # (''properties_key'', p') # kvs))"
    by (simp add: same_binding_def field_def)
qed

theorem binding_lookup_matches_five_fields_witness:
  "cmd_run (sample_env False ''unused'') []
      (bindings_list_cmd (sample_env False ''unused'') ''localhost'' 15672 ''guest'' ''guest''
         ''/'' None)
     = RStr bindings_text
   \<and> json_loads (sample_env False ''unused'') bindings_text = Some (JList sample_bindings)
   \<and> list_all is_binding_record sample_bindings
   \<and> fst (binding_exists (sample_env False ''unused'') [] ''orders'' ''orders'' ''queue''
            ''new'' ''localhost'' 15672 ''guest'' ''guest'' ''/'' None)
       = Inr True
   \<and> fst (binding_exists_with_props (sample_env False ''unused'') [] ''orders'' ''orders''
            ''queue'' ''new'' ''localhost'' 15672 ''guest'' ''guest'' ''/'' None)
       = Inr (JStr ''new'')
   \<and> fst (binding_exists (sample_env False ''unused'') [] ''orders'' ''orders'' ''queue''
            ''old'' ''localhost'' 15672 ''guest'' ''guest'' ''/'' None)
       = Inr False
   \<and> fst (binding_exists_with_props (sample_env False ''unused'') [] ''orders'' ''orders''
            ''queue'' ''old'' ''localhost'' 15672 ''guest'' ''guest'' ''/'' None)
       = Inr JNull"
proof -
  have h1: "cmd_run (sample_env False ''unused'') []
      (bindings_list_cmd (sample_env False ''unused'') ''localhost'' 15672 ''guest'' ''guest''
         ''/'' None)
     = RStr bindings_text"
    by (simp add: sample_env_def sample_run_def bindings_list_cmd_def)
  have h2: "json_loads (sample_env False ''unused'') bindings_text
              = Some (JList sample_bindings)"
    by (simp add: sample_env_def sample_loads_def bindings_text_def exchanges_text_def
        queues_text_def)
  have h3: "list_all is_binding_record sample_bindings"
    by (simp add: sample_bindings_def is_binding_record_def)
  note t1 = binding_lookup_matches_five_fields
    [OF h1 h2 h3, where name = "''orders''" and destination = "''orders''"
       and destination_type = "''queue''" and routing_key = "''new''"]
  note t2 = binding_lookup_matches_five_fields
    [OF h1 h2 h3, where name = "''orders''" and destination = "''orders''"
       and destination_type = "''queue''" and routing_key = "''old''"]
  have c: "fst (binding_exists (sample_env False ''unused'') [] ''orders'' ''orders'' ''queue''
            ''new'' ''localhost'' 15672 ''guest'' ''guest'' ''/'' None)
       = Inr True
   \<and> fst (binding_exists_with_props (sample_env False ''unused'') [] ''orders'' ''orders''
            ''queue'' ''new'' ''localhost'' 15672 ''guest'' ''guest'' ''/'' None)
       = Inr (JStr ''new'')
   \<and> fst (binding_exists (sample_env False ''unused'') [] ''orders'' ''orders'' ''queue''
            ''old'' ''localhost'' 15672 ''guest'' ''guest'' ''/'' None)
       = Inr False
   \<and> fst (binding_exists_with_props (sample_env False ''unused'') [] ''orders'' ''orders''
            ''queue'' ''old'' ''localhost'' 15672 ''guest'' ''guest'' ''/'' None)
       = Inr JNull"
    using t1 t2 by (simp add: sample_bindings_def same_binding_def field_def)
  from h1 h2 h3 c show ?thesis by blast
qed

section \<open>What becomes of the client's answer\<close>

text \<open>
  When \<^verbatim>\<open>cmd.run\<close> answers with text, as it does, the normalised answer is either an
  exception or the one-entry dict under the caller's label; it never has the key
  \<^verbatim>\<open>Error\<close>, so the inspection in the state functions never takes its first branch.
\<close>

lemma after_call_text:
  "label \<noteq> ''Error'' \<Longrightarrow>
   after_call r label (format_response (RStr s) label)
     = (if str_in ''Error'' s then Raise (CommandExecutionError (RStr s))
        else Continue (r\<lparr>comment := RStr s\<rparr>))"
  by (simp add: after_call_def inspect_def)

text \<open>
  Each state function outside test mode, when the check calls for a change and the
  mutating call is answered with the text \<open>s\<close>: a reply with the marker \<^verbatim>\<open>Error\<close>
  leaves the function as \<^verbatim>\<open>CommandExecutionError\<close>; any other reply gives result true,
  the reply as comment and the change \<^verbatim>\<open>{old, new}\<close>.
\<close>

lemma exchange_present_text_reply:
  assumes "\<not> opts_test e"
    and "fst (exchange_exists e h name ''localhost'' port user passwd vhost None) = Inr False"
    and "\<And>c. cmd_run e (h @ [list_cmd e ''exchanges'' port user passwd vhost]) c = RStr s"
  shows "fst (exchange_present e h name user passwd xtype durable internal auto_delete port vhost arguments)
           = (if str_in ''Error'' s then Inl (CommandExecutionError (RStr s))
              else Inr \<lparr>ret_name = name, result = Some True, comment = RStr s,
                        changes = [(''old'', []), (''new'', name)]\<rparr>)"
  using assms
  by (simp add: exchange_present_def Let_def case_prod_beta exists_calls add_exchange_def
      run_def after_call_def inspect_def finish_def)

lemma exchange_absent_text_reply:
  assumes "\<not> opts_test e"
    and "fst (exchange_exists e h name ''localhost'' port user passwd vhost None) = Inr True"
    and "\<And>c. cmd_run e (h @ [list_cmd e ''exchanges'' port user passwd vhost]) c = RStr s"
  shows "fst (exchange_absent e h name user passwd port vhost)
           = (if str_in ''Error'' s then Inl (CommandExecutionError (RStr s))
              else Inr \<lparr>ret_name = name, result = Some True, comment = RStr s,
                        changes = [(''new'', []), (''old'', name)]\<rparr>)"
  using assms
  by (simp add: exchange_absent_def Let_def case_prod_beta exists_calls delete_exchange_def
      run_def after_call_def inspect_def finish_def)

lemma queue_present_text_reply:
  assumes "\<not> opts_test e"
    and "fst (queue_exists e h name ''localhost'' port user passwd vhost None) = Inr False"
    and "\<And>c. cmd_run e (h @ [list_cmd e ''queues'' port user passwd vhost]) c = RStr s"
  shows "fst (queue_present e h name user passwd durable auto_delete port vhost arguments)
           = (if str_in ''Error'' s then Inl (CommandExecutionError (RStr s))
              else Inr \<lparr>ret_name = name, result = Some True, comment = RStr s,
                        changes = [(''old'', []), (''new'', name)]\<rparr>)"
  using assms
  by (simp add: queue_present_def Let_def case_prod_beta exists_calls add_queue_def
      run_def after_call_def inspect_def finish_def)

lemma queue_absent_text_reply:
  assumes "\<not> opts_test e"
    and "fst (queue_exists e h name ''localhost'' port user passwd vhost None) = Inr True"
    and "\<And>c. cmd_run e (h @ [list_cmd e ''queues'' port user passwd vhost]) c = RStr s"
  shows "fst (queue_absent e h name user passwd port vhost)
           = (if str_in ''Error'' s then Inl (CommandExecutionError (RStr s))
              else Inr \<lparr>ret_name = name, result = Some True, comment = RStr s,
                        changes = [(''new'', []), (''old'', name)]\<rparr>)"
  using assms
  by (simp add: queue_absent_def Let_def case_prod_beta exists_calls delete_queue_def
      run_def after_call_def inspect_def finish_def)

lemma binding_present_text_reply:
  assumes "\<not> opts_test e"
    and "fst (binding_exists e h name destination destination_type routing_key ''localhost'' port user passwd vhost None) = Inr False"
    and "\<And>c. cmd_run e (h @ [list_cmd e ''bindings'' port user passwd vhost]) c = RStr s"
  shows "fst (binding_present e h name destination destination_type routing_key user passwd port vhost arguments)
           = (if str_in ''Error'' s then Inl (CommandExecutionError (RStr s))
              else Inr \<lparr>ret_name = name, result = Some True, comment = RStr s,
                        changes = [(''old'', []), (''new'', name)]\<rparr>)"
  using assms
  by (simp add: binding_present_def Let_def case_prod_beta exists_calls add_binding_def
      run_def after_call_def inspect_def finish_def)

lemma binding_absent_text_reply:
  assumes "\<not> opts_test e"
    and "fst (binding_exists_with_props e h name destination destination_type routing_key ''localhost'' port user passwd vhost None) = Inr pk"
    and "py_truthy pk"
    and "\<And>c. cmd_run e (h @ [list_cmd e ''bindings'' port user passwd vhost]) c = RStr s"
  shows "fst (binding_absent e h name destination routing_key destination_type user passwd port vhost)
           = (if str_in ''Error'' s then Inl (CommandExecutionError (RStr s))
              else Inr \<lparr>ret_name = name, result = Some True, comment = RStr s,
                        changes = [(''new'', []), (''old'', name)]\<rparr>)"
  using assms
  by (simp add: binding_absent_def Let_def case_prod_beta exists_calls delete_binding_def
      run_def after_call_def inspect_def finish_def)

text \<open>
  Claim C5. The claim wants a mutating call whose response carries the marker
  \<^verbatim>\<open>Error\<close> to come back as a record with result false and the error text as comment.
  On a broker without the exchange \<^verbatim>\<open>audit\<close> and with the queue \<^verbatim>\<open>orders\<close>, where
  the declare and the delete are answered \<^verbatim>\<open>Received 500 Internal Server Error\<close>,
  both \<^verbatim>\<open>rabbitmq_exchange.present\<close> and \<^verbatim>\<open>rabbitmq_queue.absent\<close> end in the
  client's \<^verbatim>\<open>CommandExecutionError\<close> instead of returning a record: the branch
  \<^verbatim>\<open>if 'Error' in result\<close> of the state functions is not reached.
\<close>

theorem error_reply_raises_through_state:
  "fst (exchange_present (sample_env False ''Received 500 Internal Server Error'') []
          ''audit'' ''guest'' ''guest'' ''fanout'' True False False 15672 ''/'' [])
     = Inl (CommandExecutionError (RStr ''Received 500 Internal Server Error''))
   \<and> fst (queue_absent (sample_env False ''Received 500 Internal Server Error'') []
            ''orders'' ''guest'' ''guest'' 15672 ''/'')
     = Inl (CommandExecutionError (RStr ''Received 500 Internal Server Error''))"
  by (simp add: state_defs client_defs sample_defs)

end
